theory Spec2Isabelle
  imports Main "HOL-Library.Sublist"
begin

section \<open>The runbook generator (runbook-generator.ts) as HOL functions\<close>

text \<open>
  Conventions of the embedding.
  \<^item> A JavaScript string is a \<open>string\<close>. \<open>toLowerCase\<close> is modelled on the ASCII
    letters, which is what JavaScript does on ASCII text; other characters are kept.
  \<^item> \<open>T | null\<close> and optional fields are \<open>T option\<close>; \<open>x ?? d\<close> is \<open>nullish x d\<close>;
    a truthiness test of a string is \<open>truthy\<close> (non-empty).
  \<^item> The JavaScript \<open>Date\<close> library is not part of the repository. The two things the
    generator asks of it are fields of the environment \<open>js_env\<close>: the current instant in
    ISO form (\<open>new Date().toISOString()\<close>) and the ISO form of a parsed timestamp
    (\<open>new Date(iso).toISOString()\<close>, which throws on an invalid date: \<open>None\<close>).
  \<^item> The closure \<open>addAction\<close> mutates \<open>actionItems\<close> and \<open>actionCounter\<close>; the model
    passes that pair along as a \<open>ledger\<close>.
  \<^item> A \<open>RunbookBlock\<close> is a datatype with one constructor per \<open>type\<close> tag, carrying the
    fields the generator sets for that tag.
  \<^item> \<open>escalation_level\<close> is a JavaScript number that the schema bounds to 1..3; it is
    an \<open>int\<close> here. The generator only compares it with 1, 2 and 3.
  \<^item> Field names are the source's. Where two interfaces share a field name, or the name
    is taken in Isabelle, the field carries a prefix: \<open>s_title\<close> (Stakeholder.title),
    \<open>v_phone\<close> (VendorEscalation.phone), \<open>sec_title\<close> (RunbookSection.title),
    \<open>ai_id\<close>, \<open>ai_phase\<close>, \<open>ai_team\<close>, \<open>ai_priority\<close>, \<open>ai_notes\<close> (ActionItem) and
    \<open>esc_id\<close>, \<open>esc_role\<close>, \<open>esc_method\<close> (EscalationEntry). Parameters named
    \<open>incident\<close>, \<open>stakeholders\<close> and \<open>vendors\<close> in the source are \<open>inc\<close>, \<open>sts\<close>
    and \<open>vs\<close>.
  \<^item> Short texts, table cells, decision trees, subjects and action texts are kept in
    full. Of a long multi-line prose template only the first line is kept; the rest is
    \<open>elided fs\<close>, where \<open>fs\<close> lists, in order, the values the template interpolates
    after its first line. Characters outside ASCII are written as their UTF-8 bytes.
\<close>

subsection \<open>JavaScript string operations\<close>

definition lower_char :: "char \<Rightarrow> char" where
  "lower_char c =
     (case map_of (zip ''ABCDEFGHIJKLMNOPQRSTUVWXYZ'' ''abcdefghijklmnopqrstuvwxyz'') c of
        None \<Rightarrow> c
      | Some l \<Rightarrow> l)"

definition toLowerCase :: "string \<Rightarrow> string" where
  "toLowerCase s = map lower_char s"

text \<open>\<open>s.startsWith(t)\<close> and \<open>s.includes(t)\<close>.\<close>

fun startsWith :: "string \<Rightarrow> string \<Rightarrow> bool" where
  "startsWith s [] = True"
| "startsWith [] (t # ts) = False"
| "startsWith (c # cs) (t # ts) = (c = t \<and> startsWith cs ts)"

fun str_includes :: "string \<Rightarrow> string \<Rightarrow> bool" where
  "str_includes [] t = (t = [])"
| "str_includes (c # cs) t = (startsWith (c # cs) t \<or> str_includes cs t)"

text \<open>\<open>s.replace(pat, rep)\<close> with a string or a non-global literal pattern: the first
  occurrence only.\<close>

fun replaceFirst :: "string \<Rightarrow> string \<Rightarrow> string \<Rightarrow> string" where
  "replaceFirst pat rep [] = (if pat = [] then rep else [])"
| "replaceFirst pat rep (c # cs) =
     (if startsWith (c # cs) pat then rep @ drop (length pat) (c # cs)
      else c # replaceFirst pat rep cs)"

definition is_digit :: "char \<Rightarrow> bool" where
  "is_digit c = (c \<in> set ''0123456789'')"

definition is_lower_alnum :: "char \<Rightarrow> bool" where
  "is_lower_alnum c = (c \<in> set ''abcdefghijklmnopqrstuvwxyz0123456789'')"

text \<open>\<open>s.replace(/[^a-z0-9]/g, "")\<close>.\<close>

definition stripNonAlnum :: "string \<Rightarrow> string" where
  "stripNonAlnum s = filter is_lower_alnum s"

text \<open>\<open>s.replace(/\.\d+Z$/, " UTC")\<close>: the leftmost dot that is followed by one or more
  digits and a final Z.\<close>

definition is_ms_tail :: "string \<Rightarrow> bool" where
  "is_ms_tail cs =
     (case rev cs of
        [] \<Rightarrow> False
      | z # ds \<Rightarrow> z = CHR ''Z'' \<and> ds \<noteq> [] \<and> list_all is_digit ds)"

fun replaceMsSuffix :: "string \<Rightarrow> string" where
  "replaceMsSuffix [] = []"
| "replaceMsSuffix (c # cs) =
     (if c = CHR ''.'' \<and> is_ms_tail cs then '' UTC'' else c # replaceMsSuffix cs)"

text \<open>\<open>xs.join(sep)\<close>.\<close>

fun join :: "string \<Rightarrow> string list \<Rightarrow> string" where
  "join sep [] = []"
| "join sep [x] = x"
| "join sep (x # y # ys) = x @ sep @ join sep (y # ys)"

text \<open>\<open>String(n)\<close> for a non-negative integer and \<open>s.padStart(n, c)\<close>.\<close>

definition digit_char :: "nat \<Rightarrow> char" where
  "digit_char d = ''0123456789'' ! (d mod 10)"

function string_of_nat :: "nat \<Rightarrow> string" where
  "string_of_nat n =
     (if n < 10 then [digit_char n] else string_of_nat (n div 10) @ [digit_char (n mod 10)])"
  by pat_completeness auto
termination
  by (relation "measure id") auto

declare string_of_nat.simps [simp del]

definition padStart :: "nat \<Rightarrow> char \<Rightarrow> string \<Rightarrow> string" where
  "padStart n c s = replicate (n - length s) c @ s"

definition truthy :: "string \<Rightarrow> bool" where
  "truthy s = (s \<noteq> [])"

definition nullish :: "'a option \<Rightarrow> 'a \<Rightarrow> 'a" where
  "nullish x d = (case x of None \<Rightarrow> d | Some v \<Rightarrow> v)"

text \<open>\<open>xs.find(p) ?? null\<close>.\<close>

fun findFirst :: "('a \<Rightarrow> bool) \<Rightarrow> 'a list \<Rightarrow> 'a option" where
  "findFirst p [] = None"
| "findFirst p (x # xs) = (if p x then Some x else findFirst p xs)"

definition emdash :: string where
  "emdash = [CHR 0xE2, CHR 0x80, CHR 0x94]"

definition checkmark :: string where
  "checkmark = [CHR 0xE2, CHR 0x9C, CHR 0x85]"

definition warnsign :: string where
  "warnsign = [CHR 0xE2, CHR 0x9A, CHR 0xA0, CHR 0xEF, CHR 0xB8, CHR 0x8F]"

definition squote :: string where
  "squote = [CHR 0x27]"

definition dquote :: string where
  "dquote = [CHR 0x22]"

definition elided :: "string list \<Rightarrow> string" where
  "elided fs = concat (map (\<lambda>f. ''[...]'' @ f) fs) @ ''[...]''"

subsection \<open>Data model (types.ts)\<close>

record incident =
  number :: string
  title :: string
  severity :: string
  priority :: string
  state :: string
  category :: string
  subcategory :: string
  affected_service :: string
  affected_ci :: string
  environment :: string
  region :: "string option"
  business_impact :: string
  opened_at :: string
  detected_at :: "string option"
  assigned_to :: string
  assignment_group :: string
  caller_id :: string
  short_description :: string
  description :: string
  change_related :: bool
  related_incident :: string
  resolution_notes :: string
  close_code :: string

record stakeholder =
  name :: string
  role :: string
  s_title :: string
  team :: string
  email :: string
  phone :: string
  slack :: string
  escalation_level :: int
  notify_immediately :: bool
  bridge_url :: "string option"
  bridge_phone :: "string option"

record vendorEscalation =
  vendor :: string
  account_number :: string
  support_url :: string
  v_phone :: string
  severity_mapping :: string

datatype colorBand = Red | Amber | Teal | Green | Navy

record emailTemplate =
  phase :: string
  timing :: string
  to :: "string list"
  cc :: "string list"
  subject :: string
  body :: string
  colorBand :: colorBand

datatype alertLevel = Info | Warning | Critical

datatype runbookBlock =
    Heading nat string
  | Paragraph string
  | ChecklistItem string
  | NumberedStep nat string
  | Command string
  | Table "string list list"
  | DecisionTree string "(string \<times> string) list"
  | EmailTemplateBlock emailTemplate
  | AlertBox alertLevel string
  | Bullet "string list"

record runbookSection =
  sectionNumber :: nat
  sec_title :: string
  blocks :: "runbookBlock list"

datatype actionPriority = P1 | P2 | P3

datatype actionStatus = Open

record actionItem =
  ai_id :: string
  ai_phase :: string
  action :: string
  owner :: string
  ai_team :: string
  ai_priority :: actionPriority
  status :: actionStatus
  targetBy :: string
  ai_notes :: string

record escalationEntry =
  esc_id :: string
  contactName :: string
  esc_role :: string
  esc_method :: string

record runbookOutput =
  incident :: incident
  stakeholders :: "stakeholder list"
  vendors :: "vendorEscalation list"
  sections :: "runbookSection list"
  emailTemplates :: "emailTemplate list"
  actionItems :: "actionItem list"
  escalationEntries :: "escalationEntry list"
  generatedAt :: string
  slackChannel :: string
  zoomUrl :: string
  incidentCommander :: "stakeholder option"
  technicalLead :: "stakeholder option"
  commsLead :: "stakeholder option"

record js_env =
  nowISOString :: string
  dateToISOString :: "string \<Rightarrow> string option"

record ledger =
  items :: "actionItem list"
  actionCounter :: nat

subsection \<open>Helpers\<close>

definition findByRole :: "stakeholder list \<Rightarrow> string \<Rightarrow> stakeholder option" where
  "findByRole sts roleKeyword =
     findFirst (\<lambda>s. str_includes (toLowerCase (role s)) (toLowerCase roleKeyword)) sts"

definition getStakeholdersByLevel :: "int \<Rightarrow> bool \<Rightarrow> stakeholder list \<Rightarrow> stakeholder list" where
  "getStakeholdersByLevel level immediateOnly sts =
     filter (\<lambda>s. escalation_level s = level \<and> (\<not> immediateOnly \<or> notify_immediately s)) sts"

definition formatTimestamp :: "js_env \<Rightarrow> string \<Rightarrow> string" where
  "formatTimestamp env ts =
     (case dateToISOString env ts of
        None \<Rightarrow> ts
      | Some d \<Rightarrow> replaceMsSuffix (replaceFirst ''T'' '' '' d))"

text \<open>The id of \<open>addAction\<close>: \<open>`ACT-${String(actionCounter++).padStart(3, "0")}`\<close>.\<close>

definition actionId :: "nat \<Rightarrow> string" where
  "actionId n = ''ACT-'' @ padStart 3 (CHR ''0'') (string_of_nat n)"

definition addAction ::
  "string \<Rightarrow> string \<Rightarrow> string \<Rightarrow> string \<Rightarrow> actionPriority \<Rightarrow> string \<Rightarrow> string \<Rightarrow> ledger \<Rightarrow> ledger" where
  "addAction ph act own tm prio tgt nts l =
     \<lparr>items = items l @
        [\<lparr>ai_id = actionId (actionCounter l), ai_phase = ph, action = act, owner = own,
          ai_team = tm, ai_priority = prio, status = Open, targetBy = tgt, ai_notes = nts\<rparr>],
      actionCounter = actionCounter l + 1\<rparr>"

subsection \<open>Escalation entries\<close>

text \<open>\<open>stakeholders.map((s, i) => ...)\<close> with the id
  \<open>`ESC-${String(i + 1).padStart(3, "0")}`\<close>.\<close>

definition escalationId :: "nat \<Rightarrow> string" where
  "escalationId n = ''ESC-'' @ padStart 3 (CHR ''0'') (string_of_nat n)"

definition escalationEntry :: "nat \<Rightarrow> stakeholder \<Rightarrow> escalationEntry" where
  "escalationEntry i s =
     \<lparr>esc_id = escalationId (i + 1), contactName = name s, esc_role = role s,
      esc_method = (if notify_immediately s then ''Phone + Slack + Email'' else ''Slack + Email'')\<rparr>"

definition buildEscalationEntries :: "stakeholder list \<Rightarrow> escalationEntry list" where
  "buildEscalationEntries sts = map (\<lambda>(i, s). escalationEntry i s) (enumerate 0 sts)"

subsection \<open>Inline expressions that occur in several builders\<close>

text \<open>\<open>a || d\<close> on strings.\<close>

definition orElse :: "string \<Rightarrow> string \<Rightarrow> string" where
  "orElse a d = (if truthy a then a else d)"

text \<open>\<open>incident.region ? ` (${incident.region})` : ""\<close>.\<close>

definition regionSuffix :: "incident \<Rightarrow> string" where
  "regionSuffix inc =
     (case region inc of
        None \<Rightarrow> ''''
      | Some r \<Rightarrow> if truthy r then '' ('' @ r @ '')'' else '''')"

text \<open>\<open>incident.detected_at ?? incident.opened_at\<close>.\<close>

definition detectedAt :: "incident \<Rightarrow> string" where
  "detectedAt inc = nullish (detected_at inc) (opened_at inc)"

text \<open>\<open>commsLead?.name ?? ic?.name ?? "Incident Response Team"\<close>.\<close>

definition signature2 :: "stakeholder option \<Rightarrow> stakeholder option \<Rightarrow> string" where
  "signature2 commsLd ic =
     nullish (map_option name commsLd) (nullish (map_option name ic) ''Incident Response Team'')"

subsection \<open>Email templates\<close>

definition buildEmailTemplates ::
  "js_env \<Rightarrow> incident \<Rightarrow> stakeholder list \<Rightarrow> stakeholder option \<Rightarrow> stakeholder option \<Rightarrow>
   string \<Rightarrow> string \<Rightarrow> emailTemplate list" where
  "buildEmailTemplates env inc sts ic commsLd zoomU slackCh =
     (let immediate = filter (\<lambda>s. notify_immediately s \<or> escalation_level s = 1) sts;
          level2 = filter (\<lambda>s. escalation_level s = 2) sts;
          level3 = filter (\<lambda>s. escalation_level s = 3) sts;
          allStakeholders = sts;
          toImmediate = map email immediate;
          ccLevel2 = map email level2;
          toLevel2 = map email level2;
          ccLevel3 = map email level3;
          toAll = map email allStakeholders;
          detected = detectedAt inc
      in
      [\<lparr>phase = ''Initial Incident Notification'',
        timing = ''T+0 (send immediately upon declaring Sev1)'',
        to = toImmediate,
        cc = ccLevel2,
        subject = ''[SEV1 '' @ emdash @ '' ACTIVE] '' @ number inc @ '': '' @ affected_service inc
                  @ '' '' @ emdash @ '' '' @ title inc,
        body = ''Team,'' @ elided
          [affected_service inc, number inc, severity inc, priority inc, affected_service inc,
           affected_ci inc, environment inc, regionSuffix inc, formatTimestamp env detected,
           nullish (map_option name ic) ''[INCIDENT COMMANDER]'',
           nullish (map_option phone ic) ''[PHONE]'', business_impact inc, zoomU, slackCh,
           nullish (map_option name commsLd) ''Incident Response Team''],
        colorBand = Red\<rparr>,
       \<lparr>phase = ''War Room / Bridge Established'',
        timing = ''T+5 (once bridge call is open and team is assembling)'',
        to = toImmediate,
        cc = ccLevel2,
        subject = ''[SEV1 '' @ emdash @ '' WAR ROOM OPEN] '' @ number inc
                  @ '': Bridge call is live '' @ emdash @ '' join now'',
        body = ''Team,'' @ elided
          [number inc, zoomU, nullish (Option.bind ic bridge_phone) ''[DIAL-IN NUMBER + PIN]'',
           slackCh, nullish (map_option name ic) ''[INCIDENT COMMANDER]'', assignment_group inc,
           signature2 commsLd ic],
        colorBand = Red\<rparr>,
       \<lparr>phase = ''30-Minute Status Update'',
        timing = ''T+30 (and every 30 minutes thereafter until resolved)'',
        to = toImmediate @ toLevel2,
        cc = ccLevel3,
        subject = ''[SEV1 '' @ emdash @ '' T+[ELAPSED]MIN UPDATE] '' @ number inc
                  @ '': Status Update '' @ emdash @ '' [CURRENT_STATUS_HEADLINE]'',
        body = ''Team,'' @ elided
          [number inc, zoomU, slackCh,
           nullish (map_option name commsLd) ''Incident Response Team''],
        colorBand = Amber\<rparr>,
       \<lparr>phase = ''Mitigation In Progress'',
        timing = ''T+[X] (send when a containment action is being executed)'',
        to = toImmediate @ toLevel2,
        cc = ccLevel3,
        subject = ''[SEV1 '' @ emdash @ '' MITIGATION ACTIVE] '' @ number inc
                  @ '': Containment action underway for '' @ affected_service inc,
        body = ''Team,'' @ elided
          [number inc, orElse (join '', '' (map name level2)) ''[LEVEL 2 CONTACTS]'', zoomU,
           slackCh, signature2 commsLd ic],
        colorBand = Amber\<rparr>,
       \<lparr>phase = ''Service Restored'',
        timing = ''T+[X] (send within 10 minutes of confirming service is restored)'',
        to = toAll,
        cc = [],
        subject = ''[SEV1 '' @ emdash @ '' RESOLVED '' @ checkmark @ ''] '' @ number inc @ '': ''
                  @ affected_service inc @ '' has been restored'',
        body = ''Team,'' @ elided
          [affected_service inc, number inc, affected_service inc, formatTimestamp env detected,
           nullish (map_option name ic) ''the Incident Commander'', assignment_group inc,
           signature2 commsLd ic],
        colorBand = Green\<rparr>,
       \<lparr>phase = ''Incident Closed + PIR Invitation'',
        timing = ''T+24h (within 24 hours of resolution, once PIR is scheduled)'',
        to = toImmediate @ toLevel2,
        cc = ccLevel3,
        subject = ''['' @ number inc @ '' CLOSED] Post-Incident Review scheduled '' @ emdash
                  @ '' '' @ title inc,
        body = ''Team,'' @ elided
          [number inc, number inc, affected_service inc, severity inc, business_impact inc,
           nullish (map_option name ic) ''[INCIDENT COMMANDER]'',
           nullish (map_option email ic) ''[IC_EMAIL]'', signature2 commsLd ic],
        colorBand = Navy\<rparr>])"

subsection \<open>Section 1: incident summary banner\<close>

definition buildSection1 :: "js_env \<Rightarrow> incident \<Rightarrow> runbookSection" where
  "buildSection1 env inc =
     (let blocks0 =
        [Table
           [[''Field'', ''Value''],
            [''Incident Number'', number inc],
            [''Title'', title inc],
            [''Severity'', severity inc],
            [''Priority'', priority inc],
            [''State'', state inc],
            [''Affected Service'', affected_service inc],
            [''Affected CI / Resource'', affected_ci inc],
            [''Environment'', environment inc @ regionSuffix inc],
            [''Category'', category inc @ '' / '' @ subcategory inc],
            [''Assigned To'', assigned_to inc],
            [''Assignment Group'', assignment_group inc],
            [''Reported By'', caller_id inc],
            [''Opened At'', formatTimestamp env (opened_at inc)],
            [''Detected At'', formatTimestamp env (detectedAt inc)],
            [''Change Related'',
             if change_related inc then ''YES '' @ emdash @ '' investigate recent changes''
             else ''No''],
            [''Related Incident'', orElse (related_incident inc) ''None'']],
         Paragraph ''**Business Impact**'',
         Paragraph (business_impact inc),
         AlertBox Critical
           (warnsign @ ''  This is a Severity '' @ severity inc
            @ '' incident. Every minute of delay costs revenue and customer trust. ''
            @ ''Follow this runbook from top to bottom without skipping steps.'')];
          blocks1 =
            (if truthy (description inc)
             then blocks0 @ [Paragraph ''**Incident Description**'', Paragraph (description inc)]
             else blocks0)
      in \<lparr>sectionNumber = 1, sec_title = ''Incident Summary Banner'', blocks = blocks1\<rparr>)"

subsection \<open>Section 2: immediate triage checklist\<close>

definition buildSection2 ::
  "incident \<Rightarrow> stakeholder option \<Rightarrow> string \<Rightarrow> string \<Rightarrow> ledger \<Rightarrow> runbookSection \<times> ledger" where
  "buildSection2 inc ic zoomU slackCh l0 =
     (let icName = nullish (map_option name ic) ''On-Call Engineer'';
          icTeam = nullish (map_option team ic) ''Operations'';
          l1 = addAction ''Triage''
                 (''Confirm alert is genuine '' @ emdash @ '' check '' @ affected_ci inc @ '' directly'')
                 icName icTeam P1 ''T+2'' '''' l0;
          l2 = addAction ''Triage''
                 (''Assess blast radius '' @ emdash @ '' identify all affected services and users'')
                 icName icTeam P1 ''T+3'' '''' l1;
          l3 = addAction ''Triage'' ''Open Zoom bridge and Slack incident channel''
                 icName icTeam P1 ''T+5'' '''' l2;
          l4 = addAction ''Triage'' ''Page all immediate-notify stakeholders''
                 icName icTeam P1 ''T+5'' '''' l3;
          blocks0 =
            [AlertBox Warning
               (''Complete all steps in this section within 5 minutes of picking up the alert. ''
                @ ''Do not investigate root cause yet '' @ emdash
                @ '' your goal is to confirm, assess, and mobilise.''),
             NumberedStep 1
               (''**T+0 '' @ emdash @ '' Confirm the alert is genuine.**'' @ elided
                  [affected_ci inc, affected_ci inc, affected_ci inc, number inc]),
             NumberedStep 2
               (''**T+1 '' @ emdash @ '' Check the monitoring dashboard.**'' @ elided
                  [affected_service inc]),
             NumberedStep 3
               (''**T+2 '' @ emdash @ '' Assess blast radius.**'' @ elided
                  [affected_ci inc, nullish (region inc) ''check all regions'']),
             NumberedStep 4
               (''**T+3 '' @ emdash @ '' Open the incident Slack channel.**'' @ elided
                  [slackCh, number inc, severity inc, affected_service inc, affected_ci inc,
                   business_impact inc, zoomU,
                   nullish (map_option name ic) ''[Incident Commander]'',
                   nullish (map_option slack ic) ''[slack handle]'']),
             NumberedStep 5
               (''**T+4 '' @ emdash @ '' Join the Zoom bridge call.**'' @ elided
                  [zoomU, nullish (Option.bind ic bridge_phone) ''[see stakeholders list]'',
                   affected_service inc, number inc,
                   (case ic of
                      None \<Rightarrow> ''We need to assign an Incident Commander now.''
                    | Some c \<Rightarrow>
                        if truthy (name c) then name c @ '' is the Incident Commander.''
                        else ''We need to assign an Incident Commander now.'')]),
             NumberedStep 6
               (''**T+5 '' @ emdash @ '' Page immediate-notify stakeholders.**'' @ elided [])];
          immediateStakeholders = getStakeholdersByLevel 1 True [];
          blocks1 = blocks0 @
            [Table
               [[''Name'', ''Role'', ''Slack'', ''Phone''],
                [''[IC_NAME]'', ''Incident Commander'', ''[IC_SLACK]'', ''[IC_PHONE]''],
                [''[TECH_LEAD_NAME]'', ''Technical Lead'', ''[TECH_SLACK]'', ''[TECH_PHONE]''],
                [''[COMMS_LEAD_NAME]'', ''Communications Lead'', ''[COMMS_SLACK]'',
                 ''[COMMS_PHONE]'']]]
      in (\<lparr>sectionNumber = 2, sec_title = ''Immediate Triage Checklist (First 5 Minutes)'',
           blocks = blocks1\<rparr>, l4))"

subsection \<open>Section 3: communication plan\<close>

definition buildSection3 ::
  "incident \<Rightarrow> stakeholder list \<Rightarrow> stakeholder option \<Rightarrow> stakeholder option \<Rightarrow>
   emailTemplate list \<Rightarrow> ledger \<Rightarrow> runbookSection \<times> ledger" where
  "buildSection3 inc sts ic commsLd templates l0 =
     (let clName = nullish (map_option name commsLd) ''Comms Lead'';
          clTeam = nullish (map_option team commsLd) ''Communications'';
          l1 = addAction ''Comms'' ''Send Initial Incident Notification email (Template 1)''
                 clName clTeam P1 ''T+5'' '''' l0;
          l2 = addAction ''Comms'' ''Post Slack message to incident channel''
                 clName clTeam P1 ''T+5'' '''' l1;
          l3 = addAction ''Comms'' ''Send War Room Established email (Template 2)''
                 clName clTeam P1 ''T+10'' '''' l2;
          l4 = addAction ''Comms'' ''Send T+30 Status Update email (Template 3)''
                 clName clTeam P1 ''T+30'' '''' l3;
          blocks0 =
            [Paragraph
               (''**Communication Owner**: '' @ clName @ '' (''
                @ nullish (map_option slack commsLd) ''assign a comms lead now'' @ '')''),
             Paragraph
               (''**Update Cadence**: Status updates every **30 minutes** until Sev1 is ''
                @ ''resolved, then final resolution email.''),
             Heading 2 ''Stakeholder Role Map'',
             Table
               ([''Name'', ''Role'', ''Notify When'', ''Method'', ''Email''] #
                map (\<lambda>s.
                  [name s,
                   role s,
                   if escalation_level s = 1 then ''Immediately (T+0)''
                   else if escalation_level s = 2 then ''T+30 or if not resolved''
                   else ''T+60 or if escalated'',
                   if notify_immediately s then ''Phone + Slack + Email'' else ''Slack + Email'',
                   email s]) sts),
             Heading 2 ''Slack Communication Steps'',
             NumberedStep 1
               (''Create Slack channel: **''
                @ replaceFirst ''inc'' ''#inc'' (toLowerCase (number inc))
                @ ''** (format: `/incident-channel '' @ number inc @ ''` or create manually)''),
             NumberedStep 2
               (''Invite the following people to the channel:\<newline>''
                @ join '' '' (map slack (filter (\<lambda>s. escalation_level s = 1) sts))),
             NumberedStep 3
               (''Pin the Incident Summary message at the top of the channel so all joiners ''
                @ ''see it immediately.''),
             NumberedStep 4
               (''Post a status update in the channel every 30 minutes, even if there is ''
                @ ''nothing new to report. Silence breeds rumour.''),
             Heading 2 ''Email Templates'',
             Paragraph
               (''Six ready-to-send email templates are provided below '' @ emdash
                @ '' one for each phase of the incident. Copy-paste the template, fill in the ''
                @ ''bracketed placeholders [LIKE THIS], and send.'')];
          blocks1 = blocks0 @ map EmailTemplateBlock templates
      in (\<lparr>sectionNumber = 3, sec_title = ''Communication Plan'', blocks = blocks1\<rparr>, l4))"

subsection \<open>Section 4: diagnosis and investigation\<close>

definition getDatabaseDiagnosisSteps :: "incident \<Rightarrow> runbookBlock list" where
  "getDatabaseDiagnosisSteps inc =
     [NumberedStep 1
        (''**Check cluster/node health.**'' @ elided
           [affected_ci inc, affected_ci inc, affected_ci inc]),
      NumberedStep 2 (''**Check database error logs (last 30 minutes).**'' @ elided []),
      NumberedStep 3 (''**Check connection pool exhaustion.**'' @ elided []),
      NumberedStep 4 (''**Check replication lag (if applicable).**'' @ elided []),
      NumberedStep 5 (''**Check disk, CPU, and memory on the DB host.**'' @ elided []),
      NumberedStep 6
        (''**Check recent DDL/DML changes and deployments (last 4 hours).**'' @ elided []),
      DecisionTree ''After completing all diagnosis steps, which best describes your findings?''
        [(''DB nodes are offline / cluster split-brain'',
          ''Go to Section 5, Step 1: Cluster restart / failover''),
         (''Connection pool exhausted, DB nodes healthy'',
          ''Go to Section 5, Step 2: Connection pool flush and restart app tier''),
         (''Blocking sessions preventing progress'',
          ''Go to Section 5, Step 3: Kill blocking sessions''),
         (''Recent deployment suspected'', ''Go to Section 5, Step 4: Rollback deployment''),
         (''Disk / memory / CPU exhaustion'', ''Go to Section 5, Step 5: Resource remediation''),
         (''None of the above / unclear'',
          ''Escalate: page vendor support (see Section 6) and senior DBA now'')]]"

definition getNetworkDiagnosisSteps :: "incident \<Rightarrow> runbookBlock list" where
  "getNetworkDiagnosisSteps inc =
     [NumberedStep 1
        (''**Confirm reachability from multiple vantage points.**'' @ elided
           [affected_ci inc, affected_ci inc, affected_ci inc, affected_ci inc, affected_ci inc]),
      NumberedStep 2
        (''**Check routing tables and BGP status.**'' @ elided
           [affected_ci inc, affected_ci inc]),
      NumberedStep 3
        (''**Check firewall and security group rules.**'' @ elided [affected_ci inc]),
      NumberedStep 4
        (''**Check CDN and load balancer health.**'' @ elided
           [affected_service inc, affected_service inc]),
      DecisionTree ''What did network diagnosis reveal?''
        [(''BGP peer down or routing change'',
          ''Section 5, Step 1: Revert routing change or failover to backup link''),
         (''Firewall rule blocking traffic'', ''Section 5, Step 2: Revert firewall rule change''),
         (''DNS misconfiguration'', ''Section 5, Step 3: Fix DNS record and force propagation''),
         (''CDN/Load balancer issue'',
          ''Section 5, Step 4: Bypass CDN or failover load balancer''),
         (''Unresolved '' @ emdash @ '' no root cause found'',
          ''Escalate to Senior Network Engineer and vendor (Section 6)'')]]"

definition getApplicationDiagnosisSteps :: "incident \<Rightarrow> runbookBlock list" where
  "getApplicationDiagnosisSteps inc =
     [NumberedStep 1
        (''**Check error rate and latency in APM.**'' @ elided [affected_service inc]),
      NumberedStep 2
        (''**Check application error logs.**'' @ elided
           [affected_ci inc, affected_ci inc, affected_ci inc, affected_ci inc]),
      NumberedStep 3
        (''**Check deployment history (last 4 hours).**'' @ elided [affected_ci inc]),
      NumberedStep 4
        (''**Check feature flags and configuration.**'' @ elided
           [affected_service inc, affected_ci inc]),
      DecisionTree ''Application diagnosis outcome?''
        [(''Recent deployment identified'', ''Section 5, Step 1: Rollback deployment''),
         (''Feature flag / config change'', ''Section 5, Step 2: Revert flag or config''),
         (''Memory leak / OOM'',
          ''Section 5, Step 3: Restart pods/instances, then investigate heap dumps''),
         (''Upstream dependency failure (DB, API, cache)'',
          ''Investigate the upstream dependency: restart diagnosis loop for that CI''),
         (''No clear cause'',
          ''Escalate to senior engineer; consider blue/green failover (Section 5, Step 4)'')]]"

definition getCloudInfraDiagnosisSteps :: "incident \<Rightarrow> runbookBlock list" where
  "getCloudInfraDiagnosisSteps inc =
     [NumberedStep 1
        (''**Check cloud provider status and AZ health.**'' @ elided
           [nullish (region inc) ''your region'']),
      NumberedStep 2 (''**Check compute instance / container health.**'' @ elided []),
      NumberedStep 3 (''**Check IAM / permission changes.**'' @ elided []),
      DecisionTree ''Cloud/Infra diagnosis outcome?''
        [(''Provider-side AZ/region incident'',
          ''Section 5, Step 5: Failover to secondary region''),
         (''Compute instances impaired'',
          ''Section 5, Step 1: Replace/restart impaired instances''),
         (''IAM/permission change'', ''Section 5, Step 2: Revert IAM change via CloudTrail event''),
         (''Autoscaling stuck or misconfigured'',
          ''Section 5, Step 3: Manually scale out, fix ASG policy''),
         (''Unknown'',
          ''Escalate to cloud architect; open cloud provider P1 case (Section 6)'')]]"

definition getSecurityDiagnosisSteps :: "incident \<Rightarrow> runbookBlock list" where
  "getSecurityDiagnosisSteps inc =
     [NumberedStep 1
        (''**Check SIEM for correlated alerts.**'' @ elided [affected_ci inc]),
      NumberedStep 2 (''**Check authentication logs for anomalies.**'' @ elided []),
      NumberedStep 3 (''**Check DLP (Data Loss Prevention) alerts.**'' @ elided []),
      AlertBox Critical
        (''SECURITY INCIDENT HANDLING: If you confirm a breach or data exfiltration '' @ emdash
         @ '' STOP. Escalate immediately to the CISO and Legal team BEFORE taking any ''
         @ ''containment action. Containment may need to be coordinated with law enforcement.'')]"

definition getGenericDiagnosisSteps :: "incident \<Rightarrow> runbookBlock list" where
  "getGenericDiagnosisSteps inc =
     [NumberedStep 1
        (''**Check primary health endpoint.**'' @ elided
           [affected_ci inc, affected_ci inc, affected_ci inc]),
      NumberedStep 2
        (''**Check system logs for errors (last 30 minutes).**'' @ elided [affected_ci inc]),
      NumberedStep 3 (''**Check system resources.**'' @ elided []),
      NumberedStep 4
        (''**Check recent deployments and configuration changes.**'' @ elided
           [affected_ci inc])]"

definition buildSection4 ::
  "incident \<Rightarrow> stakeholder option \<Rightarrow> stakeholder option \<Rightarrow> ledger \<Rightarrow> runbookSection \<times> ledger" where
  "buildSection4 inc ic techLd l0 =
     (let cat = toLowerCase (category inc);
          tlName = nullish (map_option name techLd) ''Technical Lead'';
          tlTeam = nullish (map_option team techLd) ''Engineering'';
          l1 = addAction ''Diagnosis''
                 (''Run initial '' @ category inc @ '' health check on '' @ affected_ci inc)
                 tlName tlTeam P1 ''T+10'' '''' l0;
          l2 = addAction ''Diagnosis'' ''Collect logs from affected CI and downstream services''
                 tlName tlTeam P1 ''T+15'' '''' l1;
          l3 = addAction ''Diagnosis'' ''Check recent change/deployment history (last 4 hours)''
                 tlName tlTeam P1 ''T+15'' '''' l2;
          l4 = addAction ''Diagnosis'' ''Document working hypothesis in Slack channel''
                 (nullish (map_option name ic) ''IC'') (nullish (map_option team ic) ''Operations'')
                 P2 ''T+20'' '''' l3;
          blocks0 =
            [Paragraph
               (''**Owner**: '' @ tlName @ '' (''
                @ nullish (map_option slack techLd) ''assign tech lead'' @ '')'' @ elided []),
             AlertBox Info
               (''For every check below: state what you expected vs. what you found. ''
                @ squote @ ''Good'' @ squote @ '' means the result matches expected baseline. ''
                @ squote @ ''Bad'' @ squote @ '' means it deviates and needs investigation.'')];
          blocks1 = blocks0 @
            (if str_includes cat ''database'' then getDatabaseDiagnosisSteps inc
             else if str_includes cat ''network'' then getNetworkDiagnosisSteps inc
             else if str_includes cat ''application'' then getApplicationDiagnosisSteps inc
             else if str_includes cat ''cloud'' \<or> str_includes cat ''infra''
               then getCloudInfraDiagnosisSteps inc
             else if str_includes cat ''security'' then getSecurityDiagnosisSteps inc
             else getGenericDiagnosisSteps inc);
          blocks2 = blocks1 @
            [Heading 2 ''Root Cause Hypothesis Log'',
             Paragraph
               (''Before moving to containment, post your working hypothesis in the Slack ''
                @ ''channel:''),
             Command (''We believe the root cause is: [YOUR HYPOTHESIS]'' @ elided [])]
      in (\<lparr>sectionNumber = 4, sec_title = ''Diagnosis & Investigation Steps'',
           blocks = blocks2\<rparr>, l4))"

subsection \<open>Section 5: containment and mitigation\<close>

definition getDatabaseContainmentSteps :: "incident \<Rightarrow> runbookBlock list" where
  "getDatabaseContainmentSteps inc =
     [NumberedStep 1
        (''**Option A: Failover to standby/replica (FASTEST '' @ emdash
         @ '' preferred first action).**'' @ elided [affected_ci inc]),
      NumberedStep 2
        (''**Option B: Restart connection pool (if pool exhaustion is the cause).**''
         @ elided [affected_ci inc]),
      NumberedStep 3 (''**Option C: Kill blocking sessions.**'' @ elided []),
      NumberedStep 4
        (''**Option D: Rollback a recent deployment (if deployment is suspected).**''
         @ elided [affected_ci inc, affected_ci inc])]"

definition getApplicationContainmentSteps :: "incident \<Rightarrow> runbookBlock list" where
  "getApplicationContainmentSteps inc =
     [NumberedStep 1
        (''**Rollback deployment to last known-good version.**'' @ elided
           [affected_ci inc, affected_ci inc, affected_ci inc, affected_ci inc, affected_ci inc]),
      NumberedStep 2 (''**Disable problematic feature flag.**'' @ elided []),
      NumberedStep 3
        (''**Restart affected services (last resort '' @ emdash @ '' short-term fix only).**''
         @ elided [affected_ci inc, affected_ci inc, affected_ci inc])]"

definition getNetworkContainmentSteps :: "incident \<Rightarrow> runbookBlock list" where
  "getNetworkContainmentSteps inc =
     [NumberedStep 1
        (''**Revert the routing change / re-advertise the route.**'' @ elided
           [affected_ci inc]),
      NumberedStep 2 (''**Revert firewall rule change.**'' @ elided []),
      NumberedStep 3
        (''**Bypass CDN and route traffic directly to origin.**'' @ elided [affected_ci inc])]"

definition getCloudInfraContainmentSteps :: "incident \<Rightarrow> runbookBlock list" where
  "getCloudInfraContainmentSteps inc =
     [NumberedStep 1 (''**Replace impaired instances / restart pods.**'' @ elided []),
      NumberedStep 2 (''**Failover to backup region / AZ.**'' @ elided [])]"

definition getGenericContainmentSteps :: "incident \<Rightarrow> runbookBlock list" where
  "getGenericContainmentSteps inc =
     [NumberedStep 1
        (''**Restart the affected service (first, safest option).**'' @ elided
           [affected_ci inc, affected_ci inc]),
      NumberedStep 2 (''**Rollback most recent change.**'' @ elided [affected_ci inc]),
      NumberedStep 3
        (''**Failover to backup/standby (if available).**'' @ elided [affected_service inc])]"

definition buildSection5 ::
  "incident \<Rightarrow> stakeholder option \<Rightarrow> ledger \<Rightarrow> runbookSection \<times> ledger" where
  "buildSection5 inc techLd l0 =
     (let cat = toLowerCase (category inc);
          tlName = nullish (map_option name techLd) ''Technical Lead'';
          tlTeam = nullish (map_option team techLd) ''Engineering'';
          l1 = addAction ''Containment''
                 ''Execute primary containment action (per diagnosis findings)''
                 tlName tlTeam P1 ''T+20'' '''' l0;
          l2 = addAction ''Containment''
                 (''Validate containment effectiveness '' @ emdash @ '' monitor error rates'')
                 tlName tlTeam P1 ''T+30'' '''' l1;
          l3 = addAction ''Containment''
                 ''Document all actions taken with exact timestamps in Slack''
                 tlName tlTeam P2 ''T+35'' '''' l2;
          blocks0 =
            [Paragraph (''**Owner**: '' @ tlName @ elided [toLowerCase (number inc)]),
             AlertBox Warning
               (''CAB Emergency Approval: Some actions below (marked '' @ warnsign
                @ '' CAB) require Change Advisory Board emergency approval. To get fast ''
                @ ''approval: (1) Call the CAB emergency line at [CAB_PHONE], (2) State ''
                @ ''incident number and requested change, (3) Get verbal approval from the CAB ''
                @ ''chair, (4) Log the change in your ITSM tool immediately after.'')];
          blocks1 = blocks0 @
            (if str_includes cat ''database'' then getDatabaseContainmentSteps inc
             else if str_includes cat ''network'' then getNetworkContainmentSteps inc
             else if str_includes cat ''application'' then getApplicationContainmentSteps inc
             else if str_includes cat ''cloud'' \<or> str_includes cat ''infra''
               then getCloudInfraContainmentSteps inc
             else getGenericContainmentSteps inc)
      in (\<lparr>sectionNumber = 5, sec_title = ''Containment & Mitigation Actions'',
           blocks = blocks1\<rparr>, l3))"

subsection \<open>Section 6: escalation matrix\<close>

definition buildSection6 :: "stakeholder list \<Rightarrow> vendorEscalation list \<Rightarrow> runbookSection" where
  "buildSection6 sts vs =
     (let blocks0 =
        [Paragraph
           (''Use this matrix to escalate if the incident is not resolved within the stated ''
            @ ''time window. **Do not wait until the time is up** '' @ emdash
            @ '' if you are not making progress, escalate sooner.''),
         Table
           [[''Time Elapsed'', ''Action'', ''Escalate To'', ''Contact Method''],
            [''T+15 (not contained)'',
             ''Escalate to Technical Lead + IC if not already engaged'',
             join '', '' (map name (filter (\<lambda>s. escalation_level s = 1) sts)),
             ''Phone + Slack''],
            [''T+30 (not contained)'',
             ''Escalate to VP/Senior Management; consider vendor support'',
             orElse (join '', '' (map name (filter (\<lambda>s. escalation_level s = 2) sts)))
               ''Level 2 contacts'',
             ''Phone + Email''],
            [''T+60 (not contained)'',
             ''Escalate to C-Suite; open P1 case with relevant vendor'',
             orElse (join '', '' (map name (filter (\<lambda>s. escalation_level s = 3) sts)))
               ''Executive team'',
             ''Phone''],
            [''T+120 (still unresolved)'',
             ''Consider declaring Major Incident; invoke DR plan; all hands'',
             ''All stakeholders + DRI team'',
             ''Emergency all-hands bridge'']],
         Heading 2 ''Individual Escalation Contacts'',
         Table
           ([''Name'', ''Role'', ''Escalation Level'', ''Phone'', ''Email'', ''Slack''] #
            map (\<lambda>s.
              [name s,
               role s,
               if escalation_level s = 1 then ''Level 1 '' @ emdash @ '' Immediate''
               else if escalation_level s = 2 then ''Level 2 '' @ emdash @ '' T+30''
               else ''Level 3 '' @ emdash @ '' T+60+'',
               phone s,
               email s,
               slack s]) sts)];
          blocks1 =
            (if length vs > 0
             then blocks0 @
               [Heading 2 ''Vendor / Third-Party Escalation'',
                Table
                  ([''Vendor'', ''Account Number'', ''Support URL'', ''Phone'',
                    ''Severity to Declare''] #
                   map (\<lambda>v. [vendor v, account_number v, support_url v, v_phone v,
                              severity_mapping v]) vs)]
             else blocks0)
      in \<lparr>sectionNumber = 6, sec_title = ''Escalation Matrix'', blocks = blocks1\<rparr>)"

subsection \<open>Section 7: resolution and validation\<close>

definition buildSection7 ::
  "incident \<Rightarrow> stakeholder option \<Rightarrow> ledger \<Rightarrow> runbookSection \<times> ledger" where
  "buildSection7 inc ic l0 =
     (let icName = nullish (map_option name ic) ''IC'';
          icTeam = nullish (map_option team ic) ''Operations'';
          l1 = addAction ''Resolution''
                 (''Validate '' @ affected_service inc @ '' end-to-end health checks pass'')
                 icName icTeam P1 ''T+0 post-fix'' '''' l0;
          l2 = addAction ''Resolution'' ''Confirm error rate and latency return to baseline''
                 icName icTeam P1 ''T+5 post-fix'' '''' l1;
          l3 = addAction ''Resolution'' ''Run synthetic monitor / smoke test''
                 icName icTeam P1 ''T+5 post-fix'' '''' l2;
          l4 = addAction ''Resolution''
                 ''Formally downgrade to Sev2 / close bridge once all checks pass''
                 icName icTeam P2 ''T+10 post-fix'' '''' l3;
          l5 = addAction ''Resolution'' ''Send Service Restored notification (Email Template 5)''
                 icName icTeam P1 ''T+5 post-fix'' '''' l4;
          blocks0 =
            [Paragraph
               (''**Owner**: '' @ nullish (map_option name ic) ''Incident Commander''
                @ elided []),
             Heading 2 ''Resolution Criteria Checklist'',
             ChecklistItem
               (''Health endpoint returns 200 OK: `curl -I https://'' @ affected_ci inc
                @ ''/health`''),
             ChecklistItem
               (''Synthetic monitor for '' @ squote @ affected_service inc @ squote
                @ '' is GREEN (check your monitoring tool)''),
             ChecklistItem
               ''Error rate has returned to pre-incident baseline (check APM dashboard)'',
             ChecklistItem ''P99 latency has returned to normal range'',
             ChecklistItem
               ''Customer-facing checkout / primary user flow is functioning end-to-end'',
             ChecklistItem ''Alerting rules are no longer firing'',
             ChecklistItem ''On-call engineer has monitored for 10 minutes with no re-trigger'',
             ChecklistItem
               (''Business stakeholder (Customer Impact Lead) has confirmed no open customer ''
                @ ''complaints''),
             Heading 2 ''Severity Downgrade Criteria'',
             Table
               [[''Condition'', ''Action''],
                [''All health checks pass, no customer impact, stable for 10 min'',
                 ''Downgrade to Sev2 and continue monitoring''],
                [''Partial restoration (some customers still affected)'',
                 ''Downgrade to Sev2, keep bridge open, continue investigation''],
                [''Workaround in place (not fully resolved)'',
                 ''Downgrade to Sev2, open follow-up task for permanent fix'']],
             Heading 2 ''Closing the Bridge'',
             NumberedStep 1
               (''Announce in the Zoom bridge: '' @ dquote
                @ ''Service is restored. All health checks passing. We are closing the ''
                @ ''bridge. Thank you everyone.'' @ dquote),
             NumberedStep 2
               (''Post in Slack channel ''
                @ replaceFirst ''inc'' ''#inc'' (toLowerCase (number inc)) @ '':''
                @ elided [number inc, affected_service inc]),
             NumberedStep 3 ''Send the Service Restored email (Template 5 in Section 3).'',
             NumberedStep 4
               (''Stand down all escalated stakeholders '' @ emdash
                @ '' send personal message or call to confirm they know the incident is ''
                @ ''over.'')]
      in (\<lparr>sectionNumber = 7, sec_title = ''Resolution & Validation'', blocks = blocks0\<rparr>,
          l5))"

subsection \<open>Section 8: post-incident handoff\<close>

definition buildSection8 ::
  "incident \<Rightarrow> stakeholder option \<Rightarrow> stakeholder option \<Rightarrow> ledger \<Rightarrow> runbookSection \<times> ledger" where
  "buildSection8 inc ic commsLd l0 =
     (let icName = nullish (map_option name ic) ''IC'';
          icTeam = nullish (map_option team ic) ''Operations'';
          l1 = addAction ''Resolution''
                 ''Update ServiceNow incident ticket with timeline and resolution''
                 icName icTeam P2 ''T+30 post-fix'' '''' l0;
          l2 = addAction ''Resolution'' ''Create PIR ticket and schedule PIR meeting''
                 icName icTeam P2 ''T+2 days'' '''' l1;
          l3 = addAction ''Resolution'' ''Send PIR invitation email (Template 6)''
                 (nullish (map_option name commsLd) ''Comms Lead'')
                 (nullish (map_option team commsLd) ''Communications'') P2 ''T+1 day'' '''' l2;
          blocks0 =
            [Paragraph
               (''**Owner**: '' @ nullish (map_option name ic) ''Incident Commander''
                @ elided [number inc]),
             Heading 2 ''Documentation Before Closing'',
             ChecklistItem
               (''Complete timeline of events documented (use Slack channel history + Excel ''
                @ ''Timeline sheet)''),
             ChecklistItem
               (''All containment actions documented with exact timestamps and who performed ''
                @ ''them''),
             ChecklistItem
               (''Root cause hypothesis documented (even if unconfirmed '' @ emdash
                @ '' note confidence level)''),
             ChecklistItem
               ''Customer impact quantified (number of users, duration, business cost)'',
             ChecklistItem ''Any temporary workarounds noted with follow-up tasks created'',
             ChecklistItem
               ''All follow-up Jira/ticket items created and assigned with due dates'',
             Heading 2 ''ServiceNow Resolution Update'',
             Paragraph
               (''Update ticket **'' @ number inc
                @ ''** in ServiceNow with the following information:'' @ elided []),
             Command (''RESOLUTION NOTES '' @ emdash @ '' '' @ number inc @ elided []),
             Heading 2 ''Post-Incident Review (PIR) Ticket'',
             Paragraph
               (''Raise a PIR ticket (Problem record in ServiceNow) within 24 hours of ''
                @ ''resolution. Use the template below:''),
             Command
               (''PIR TICKET '' @ emdash @ '' '' @ number inc @ elided
                  [title inc, nullish (map_option name ic) ''[INCIDENT COMMANDER]'', number inc,
                   title inc, severity inc, affected_service inc, business_impact inc,
                   nullish (map_option name ic) ''[IC]'']),
             Heading 2 ''ServiceNow Ticket Closure Checklist'',
             ChecklistItem (''Set State to '' @ dquote @ ''Resolved'' @ dquote),
             ChecklistItem
               (''Set Close Code to appropriate category (e.g., '' @ squote @ ''Software''
                @ squote @ '', '' @ squote @ ''Infrastructure'' @ squote @ '', '' @ squote
                @ ''User Error'' @ squote @ '')''),
             ChecklistItem ''Fill in Resolution Notes (use template above)'',
             ChecklistItem ''Link PIR Problem ticket in the Related Problems field'',
             ChecklistItem
               ''Attach this runbook (.docx) and the action tracker (.xlsx) to the ticket'',
             ChecklistItem ''Send Template 6 (PIR Invitation email) to all stakeholders'',
             ChecklistItem
               (''Archive the Slack incident channel (do NOT delete '' @ emdash
                @ '' retain for audit)'')]
      in (\<lparr>sectionNumber = 8, sec_title = ''Post-Incident Handoff'', blocks = blocks0\<rparr>,
          l3))"

subsection \<open>Main entry point\<close>

definition generateRunbook ::
  "js_env \<Rightarrow> incident \<Rightarrow> stakeholder list \<Rightarrow> vendorEscalation list \<Rightarrow> runbookOutput" where
  "generateRunbook env inc sts vs =
     (let ic = findByRole sts ''Incident Commander'';
          techLd = findByRole sts ''Technical Lead'';
          commsLd = findByRole sts ''Communications Lead'';
          customerLead = findByRole sts ''Customer Impact'';
          execSponsor = findByRole sts ''Executive Sponsor'';
          bridgeHolder =
            (case findFirst (\<lambda>s. case bridge_url s of None \<Rightarrow> False | Some u \<Rightarrow> truthy u) sts of
               None \<Rightarrow> ic
             | Some h \<Rightarrow> Some h);
          zoomU = nullish (Option.bind bridgeHolder bridge_url) ''[ZOOM_BRIDGE_URL]'';
          bridgePhone = nullish (Option.bind bridgeHolder bridge_phone) ''[BRIDGE_DIAL_IN]'';
          slackCh = ''#inc'' @ stripNonAlnum (toLowerCase (number inc));
          detected = detectedAt inc;
          templates = buildEmailTemplates env inc sts ic commsLd zoomU slackCh;
          l0 = \<lparr>items = [], actionCounter = 1\<rparr>;
          s1 = buildSection1 env inc;
          (s2, l2) = buildSection2 inc ic zoomU slackCh l0;
          (s3, l3) = buildSection3 inc sts ic commsLd templates l2;
          (s4, l4) = buildSection4 inc ic techLd l3;
          (s5, l5) = buildSection5 inc techLd l4;
          s6 = buildSection6 sts vs;
          (s7, l7) = buildSection7 inc ic l5;
          (s8, l8) = buildSection8 inc ic commsLd l7;
          escalations = buildEscalationEntries sts
      in \<lparr>incident = inc,
          stakeholders = sts,
          vendors = vs,
          sections = [s1, s2, s3, s4, s5, s6, s7, s8],
          emailTemplates = templates,
          actionItems = items l8,
          escalationEntries = escalations,
          generatedAt = nowISOString env,
          slackChannel = slackCh,
          zoomUrl = zoomU,
          incidentCommander = ic,
          technicalLead = techLd,
          commsLead = commsLd\<rparr>)"

section \<open>Specification-side notions\<close>

text \<open>
  The category router of the specification: the category string is lower-cased and
  matched by substring, in priority order, to one of six routes. The generator has no
  such type; it repeats the chain of tests in \<open>buildSection4\<close> and (without the
  security test) in \<open>buildSection5\<close>. The theorems below relate the two.
\<close>

datatype route =
  DatabaseRoute | NetworkRoute | ApplicationRoute | CloudInfraRoute | SecurityRoute | GenericRoute

definition spec_categoryRoute :: "string \<Rightarrow> route" where
  "spec_categoryRoute c =
     (let lc = toLowerCase c in
      if sublist ''database'' lc then DatabaseRoute
      else if sublist ''network'' lc then NetworkRoute
      else if sublist ''application'' lc then ApplicationRoute
      else if sublist ''cloud'' lc \<or> sublist ''infra'' lc then CloudInfraRoute
      else if sublist ''security'' lc then SecurityRoute
      else GenericRoute)"

fun spec_diagnosisSteps :: "route \<Rightarrow> incident \<Rightarrow> runbookBlock list" where
  "spec_diagnosisSteps DatabaseRoute inc = getDatabaseDiagnosisSteps inc"
| "spec_diagnosisSteps NetworkRoute inc = getNetworkDiagnosisSteps inc"
| "spec_diagnosisSteps ApplicationRoute inc = getApplicationDiagnosisSteps inc"
| "spec_diagnosisSteps CloudInfraRoute inc = getCloudInfraDiagnosisSteps inc"
| "spec_diagnosisSteps SecurityRoute inc = getSecurityDiagnosisSteps inc"
| "spec_diagnosisSteps GenericRoute inc = getGenericDiagnosisSteps inc"


text \<open>Recognisers for block kinds, and the branches of a decision tree.\<close>

fun isNumberedStep :: "runbookBlock \<Rightarrow> bool" where
  "isNumberedStep (NumberedStep n t) = True"
| "isNumberedStep b = False"

fun isDecisionTree :: "runbookBlock \<Rightarrow> bool" where
  "isDecisionTree (DecisionTree c bs) = True"
| "isDecisionTree b = False"


fun isTable :: "runbookBlock \<Rightarrow> bool" where
  "isTable (Table rows) = True"
| "isTable b = False"



section \<open>Sample inputs\<close>

definition sampleEnv :: js_env where
  "sampleEnv =
     \<lparr>nowISOString = ''2026-02-26T14:30:00.000Z'',
      dateToISOString =
        (\<lambda>s. if s = ''2026-02-26T14:28:00Z'' then Some ''2026-02-26T14:28:00.000Z'' else None)\<rparr>"

definition sampleIncident :: incident where
  "sampleIncident =
     \<lparr>number = ''INC0001'', title = ''Primary database cluster unreachable'',
      severity = ''1 - Critical'', priority = ''1 - Critical'', state = ''In Progress'',
      category = ''Database'', subcategory = ''Availability'',
      affected_service = ''Customer Portal'', affected_ci = ''db-01'',
      environment = ''Production'', region = Some ''us-east-1'',
      business_impact = ''Checkout is unavailable'', opened_at = ''2026-02-26T14:28:00Z'',
      detected_at = None, assigned_to = ''On-call DBA'', assignment_group = ''Database Ops'',
      caller_id = ''Monitoring'', short_description = ''DB down'',
      description = ''Cluster db-01 stopped answering'', change_related = False,
      related_incident = '''', resolution_notes = '''', close_code = ''''\<rparr>"

definition sampleStakeholder :: "string \<Rightarrow> string \<Rightarrow> int \<Rightarrow> bool \<Rightarrow> stakeholder" where
  "sampleStakeholder n r lvl imm =
     \<lparr>name = n, role = r, s_title = ''Engineer'', team = ''Operations'',
      email = toLowerCase n @ ''@example.com'', phone = ''+1-555-0100'',
      slack = ''@'' @ toLowerCase n, escalation_level = lvl, notify_immediately = imm,
      bridge_url = None, bridge_phone = None\<rparr>"

section \<open>Auxiliary facts\<close>

subsection \<open>Strings and lists\<close>

lemma startsWith_prefix: "startsWith s t = prefix t s"
  by (induction s t rule: startsWith.induct) auto

lemma str_includes_sublist: "str_includes s t = sublist t s"
proof (induction s)
  case Nil
  then show ?case by simp
next
  case (Cons c cs)
  then show ?case by (simp add: startsWith_prefix sublist_Cons_right)
qed

lemma findFirst_None: "(findFirst p xs = None) = (\<forall>x \<in> set xs. \<not> p x)"
  by (induction xs) simp_all

lemma findFirst_Some:
  "findFirst p xs = Some y \<Longrightarrow> \<exists>i < length xs. xs ! i = y \<and> p y \<and> (\<forall>j < i. \<not> p (xs ! j))"
proof (induction xs)
  case Nil
  then show ?case by simp
next
  case (Cons x xs)
  show ?case
  proof (cases "p x")
    case True
    with Cons.prems have "x = y" by simp
    with True show ?thesis by (intro exI[of _ 0]) simp
  next
    case False
    with Cons.prems have "findFirst p xs = Some y" by simp
    from Cons.IH[OF this] obtain i where i: "i < length xs" "xs ! i = y" "p y" "\<forall>j < i. \<not> p (xs ! j)"
      by blast
    have "\<forall>j < Suc i. \<not> p ((x # xs) ! j)"
      using False i(4) by (auto simp: nth_Cons split: nat.splits)
    with i show ?thesis by (intro exI[of _ "Suc i"]) simp
  qed
qed

subsection \<open>The action ledger\<close>

lemma addAction_counter [simp]:
  "actionCounter (addAction ph act own tm prio tgt nts l) = Suc (actionCounter l)"
  by (simp add: addAction_def)

lemma addAction_ids [simp]:
  "map ai_id (items (addAction ph act own tm prio tgt nts l)) =
   map ai_id (items l) @ [actionId (actionCounter l)]"
  by (simp add: addAction_def)

lemma buildSection2_ledger:
  "actionCounter (snd (buildSection2 inc ic z s l)) = actionCounter l + 4 \<and>
   map ai_id (items (snd (buildSection2 inc ic z s l))) =
     map ai_id (items l) @ map actionId [actionCounter l..<actionCounter l + 4]"
  by (simp add: buildSection2_def Let_def upt_rec)

lemma buildSection3_ledger:
  "actionCounter (snd (buildSection3 inc sts ic cl ts l)) = actionCounter l + 4 \<and>
   map ai_id (items (snd (buildSection3 inc sts ic cl ts l))) =
     map ai_id (items l) @ map actionId [actionCounter l..<actionCounter l + 4]"
  by (simp add: buildSection3_def Let_def upt_rec)

lemma buildSection4_ledger:
  "actionCounter (snd (buildSection4 inc ic tld l)) = actionCounter l + 4 \<and>
   map ai_id (items (snd (buildSection4 inc ic tld l))) =
     map ai_id (items l) @ map actionId [actionCounter l..<actionCounter l + 4]"
  by (simp add: buildSection4_def Let_def upt_rec)

lemma buildSection5_ledger:
  "actionCounter (snd (buildSection5 inc tld l)) = actionCounter l + 3 \<and>
   map ai_id (items (snd (buildSection5 inc tld l))) =
     map ai_id (items l) @ map actionId [actionCounter l..<actionCounter l + 3]"
  by (simp add: buildSection5_def Let_def upt_rec)

lemma buildSection7_ledger:
  "actionCounter (snd (buildSection7 inc ic l)) = actionCounter l + 5 \<and>
   map ai_id (items (snd (buildSection7 inc ic l))) =
     map ai_id (items l) @ map actionId [actionCounter l..<actionCounter l + 5]"
  by (simp add: buildSection7_def Let_def upt_rec)

lemma buildSection8_ledger:
  "actionCounter (snd (buildSection8 inc ic cl l)) = actionCounter l + 3 \<and>
   map ai_id (items (snd (buildSection8 inc ic cl l))) =
     map ai_id (items l) @ map actionId [actionCounter l..<actionCounter l + 3]"
  by (simp add: buildSection8_def Let_def upt_rec)

subsection \<open>Fields of the output\<close>

lemma gr_roles:
  "incidentCommander (generateRunbook env inc sts vs) = findByRole sts ''Incident Commander''"
  "technicalLead (generateRunbook env inc sts vs) = findByRole sts ''Technical Lead''"
  "commsLead (generateRunbook env inc sts vs) = findByRole sts ''Communications Lead''"
  by (simp_all add: generateRunbook_def Let_def split_def)

lemma gr_slackChannel:
  "slackChannel (generateRunbook env inc sts vs) = ''#inc'' @ stripNonAlnum (toLowerCase (number inc))"
  by (simp add: generateRunbook_def Let_def split_def)


lemma gr_escalationEntries:
  "escalationEntries (generateRunbook env inc sts vs) = buildEscalationEntries sts"
  by (simp add: generateRunbook_def Let_def split_def)

lemma gr_emailTemplates:
  "emailTemplates (generateRunbook env inc sts vs) =
   buildEmailTemplates env inc sts (findByRole sts ''Incident Commander'')
     (findByRole sts ''Communications Lead'') (zoomUrl (generateRunbook env inc sts vs))
     (slackChannel (generateRunbook env inc sts vs))"
  by (simp add: generateRunbook_def Let_def split_def)

lemma gr_actionItems:
  "actionItems (generateRunbook env inc sts vs) =
   (let ic = findByRole sts ''Incident Commander'';
        tld = findByRole sts ''Technical Lead'';
        cl = findByRole sts ''Communications Lead'';
        out = generateRunbook env inc sts vs;
        l2 = snd (buildSection2 inc ic (zoomUrl out) (slackChannel out) \<lparr>items = [], actionCounter = 1\<rparr>);
        l3 = snd (buildSection3 inc sts ic cl (emailTemplates out) l2);
        l4 = snd (buildSection4 inc ic tld l3);
        l5 = snd (buildSection5 inc tld l4);
        l7 = snd (buildSection7 inc ic l5);
        l8 = snd (buildSection8 inc ic cl l7)
    in items l8)"
  by (simp add: generateRunbook_def Let_def split_def)

lemma map_upt_append:
  "i \<le> j \<Longrightarrow> map f [i..<j] @ map f [j..<j + k] = map f [i..<j + k]"
  by (metis map_append upt_add_eq_append)

lemma gr_action_ids:
  "map ai_id (actionItems (generateRunbook env inc sts vs)) = map actionId [1..<24]"
proof -
  define out where "out = generateRunbook env inc sts vs"
  define ic where "ic = findByRole sts ''Incident Commander''"
  define tld where "tld = findByRole sts ''Technical Lead''"
  define cl where "cl = findByRole sts ''Communications Lead''"
  define l2 where
    "l2 = snd (buildSection2 inc ic (zoomUrl out) (slackChannel out) \<lparr>items = [], actionCounter = 1\<rparr>)"
  define l3 where "l3 = snd (buildSection3 inc sts ic cl (emailTemplates out) l2)"
  define l4 where "l4 = snd (buildSection4 inc ic tld l3)"
  define l5 where "l5 = snd (buildSection5 inc tld l4)"
  define l7 where "l7 = snd (buildSection7 inc ic l5)"
  define l8 where "l8 = snd (buildSection8 inc ic cl l7)"
  have s2: "actionCounter l2 = 5 \<and> map ai_id (items l2) = map actionId [1..<5]"
    unfolding l2_def by (simp add: buildSection2_ledger)
  have s3: "actionCounter l3 = 9 \<and> map ai_id (items l3) = map actionId [1..<9]"
    unfolding l3_def using s2 map_upt_append[of 1 5 actionId 4]
    by (simp add: buildSection3_ledger)
  have s4: "actionCounter l4 = 13 \<and> map ai_id (items l4) = map actionId [1..<13]"
    unfolding l4_def using s3 map_upt_append[of 1 9 actionId 4]
    by (simp add: buildSection4_ledger)
  have s5: "actionCounter l5 = 16 \<and> map ai_id (items l5) = map actionId [1..<16]"
    unfolding l5_def using s4 map_upt_append[of 1 13 actionId 3]
    by (simp add: buildSection5_ledger)
  have s7: "actionCounter l7 = 21 \<and> map ai_id (items l7) = map actionId [1..<21]"
    unfolding l7_def using s5 map_upt_append[of 1 16 actionId 5]
    by (simp add: buildSection7_ledger)
  have s8: "actionCounter l8 = 24 \<and> map ai_id (items l8) = map actionId [1..<24]"
    unfolding l8_def using s7 map_upt_append[of 1 21 actionId 3]
    by (simp add: buildSection8_ledger)
  have "actionItems out = items l8"
    unfolding out_def l8_def l7_def l5_def l4_def l3_def l2_def ic_def tld_def cl_def
    by (simp add: gr_actionItems Let_def)
  with s8 show ?thesis unfolding out_def by simp
qed

lemma replicate_two: "replicate 2 c = [c, c]"
  by (simp add: numeral_2_eq_2)

lemma upt_1_24:
  "[1..<24] = [1, 2, 3, 4, 5, 6, 7, 8, 9, 10, 11, 12, 13, 14, 15, 16, 17, 18, 19, 20, 21, 22, 23::nat]"
  by code_simp

lemma actionId_values:
  "map actionId [1..<24] =
   [''ACT-001'', ''ACT-002'', ''ACT-003'', ''ACT-004'', ''ACT-005'', ''ACT-006'', ''ACT-007'',
    ''ACT-008'', ''ACT-009'', ''ACT-010'', ''ACT-011'', ''ACT-012'', ''ACT-013'', ''ACT-014'',
    ''ACT-015'', ''ACT-016'', ''ACT-017'', ''ACT-018'', ''ACT-019'', ''ACT-020'', ''ACT-021'',
    ''ACT-022'', ''ACT-023'']"
  unfolding upt_1_24
  by (simp add: actionId_def padStart_def string_of_nat.simps digit_char_def replicate_two)

lemma gr_sections:
  "sections (generateRunbook env inc sts vs) =
   (let ic = findByRole sts ''Incident Commander'';
        tld = findByRole sts ''Technical Lead'';
        cl = findByRole sts ''Communications Lead'';
        out = generateRunbook env inc sts vs;
        l0 = \<lparr>items = [], actionCounter = 1\<rparr>;
        r2 = buildSection2 inc ic (zoomUrl out) (slackChannel out) l0;
        r3 = buildSection3 inc sts ic cl (emailTemplates out) (snd r2);
        r4 = buildSection4 inc ic tld (snd r3);
        r5 = buildSection5 inc tld (snd r4);
        r7 = buildSection7 inc ic (snd r5);
        r8 = buildSection8 inc ic cl (snd r7)
    in [buildSection1 env inc, fst r2, fst r3, fst r4, fst r5, buildSection6 sts vs, fst r7, fst r8])"
  by (simp add: generateRunbook_def Let_def split_def)

subsection \<open>Category-specific content of Sections 4 and 5\<close>

lemma section4_blocks:
  "drop 2 (blocks (fst (buildSection4 inc ic tld l))) =
   spec_diagnosisSteps (spec_categoryRoute (category inc)) inc
   @ [Heading 2 ''Root Cause Hypothesis Log'',
      Paragraph (''Before moving to containment, post your working hypothesis in the Slack ''
                 @ ''channel:''),
      Command (''We believe the root cause is: [YOUR HYPOTHESIS]'' @ elided [])]"
  by (simp add: buildSection4_def spec_categoryRoute_def Let_def str_includes_sublist)


lemma gr_section4_blocks:
  "drop 2 (blocks (sections (generateRunbook env inc sts vs) ! 3)) =
   spec_diagnosisSteps (spec_categoryRoute (category inc)) inc
   @ [Heading 2 ''Root Cause Hypothesis Log'',
      Paragraph (''Before moving to containment, post your working hypothesis in the Slack ''
                 @ ''channel:''),
      Command (''We believe the root cause is: [YOUR HYPOTHESIS]'' @ elided [])]"
  by (simp add: gr_sections Let_def section4_blocks)


lemma gr_section4_intro:
  "take 2 (blocks (sections (generateRunbook env inc sts vs) ! 3)) =
   [Paragraph
      (''**Owner**: '' @ nullish (map_option name (findByRole sts ''Technical Lead'')) ''Technical Lead''
       @ '' ('' @ nullish (map_option slack (findByRole sts ''Technical Lead'')) ''assign tech lead''
       @ '')'' @ elided []),
    AlertBox Info
      (''For every check below: state what you expected vs. what you found. ''
       @ squote @ ''Good'' @ squote @ '' means the result matches expected baseline. ''
       @ squote @ ''Bad'' @ squote @ '' means it deviates and needs investigation.'')]"
  by (simp add: gr_sections Let_def buildSection4_def)

lemma route_examples:
  "spec_categoryRoute ''Database'' = DatabaseRoute"
  "spec_categoryRoute ''database outage'' = DatabaseRoute"
  "spec_categoryRoute ''DATABASE'' = DatabaseRoute"
  "spec_categoryRoute ''Unknown-Widget'' = GenericRoute"
  "spec_categoryRoute ''Security'' = SecurityRoute"
  "spec_categoryRoute ''Network Security'' = NetworkRoute"
  "spec_categoryRoute ''Other'' = GenericRoute"
  by (simp_all add: spec_categoryRoute_def toLowerCase_def lower_char_def Let_def
      flip: str_includes_sublist)

subsection \<open>Escalation entries\<close>

lemma map_enumerate_index:
  "map (\<lambda>(i, s). f (Suc i)) (enumerate n xs) = map f [Suc n..<Suc (n + length xs)]"
proof (induction xs arbitrary: n)
  case Nil
  show ?case by simp
next
  case (Cons x xs)
  have "[Suc n..<Suc (n + length (x # xs))] = Suc n # [Suc (Suc n)..<Suc (Suc n + length xs)]"
    by (subst upt_conv_Cons) simp_all
  with Cons.IH[of "Suc n"] show ?case by simp
qed

lemma map_enumerate_value: "map (\<lambda>(i, s). g s) (enumerate n xs) = map g xs"
  by (induction xs arbitrary: n) simp_all

lemma escalation_fields:
  "map esc_id (buildEscalationEntries sts) = map escalationId [1..<Suc (length sts)]"
  "map contactName (buildEscalationEntries sts) = map name sts"
  "map esc_role (buildEscalationEntries sts) = map role sts"
  "map esc_method (buildEscalationEntries sts) =
     map (\<lambda>s. if notify_immediately s then ''Phone + Slack + Email'' else ''Slack + Email'') sts"
proof -
  have "map esc_id (buildEscalationEntries sts)
        = map (\<lambda>(i, s). escalationId (Suc i)) (enumerate 0 sts)"
    by (simp add: buildEscalationEntries_def escalationEntry_def case_prod_beta comp_def)
  then show "map esc_id (buildEscalationEntries sts) = map escalationId [1..<Suc (length sts)]"
    by (simp add: map_enumerate_index)
  have "map contactName (buildEscalationEntries sts) = map (\<lambda>(i, s). name s) (enumerate 0 sts)"
    by (simp add: buildEscalationEntries_def escalationEntry_def case_prod_beta comp_def)
  then show "map contactName (buildEscalationEntries sts) = map name sts"
    by (simp only: map_enumerate_value)
  have "map esc_role (buildEscalationEntries sts) = map (\<lambda>(i, s). role s) (enumerate 0 sts)"
    by (simp add: buildEscalationEntries_def escalationEntry_def case_prod_beta comp_def)
  then show "map esc_role (buildEscalationEntries sts) = map role sts"
    by (simp only: map_enumerate_value)
  have "map esc_method (buildEscalationEntries sts)
        = map (\<lambda>(i, s). if notify_immediately s then ''Phone + Slack + Email''
                           else ''Slack + Email'') (enumerate 0 sts)"
    by (simp add: buildEscalationEntries_def escalationEntry_def case_prod_beta comp_def)
  then show "map esc_method (buildEscalationEntries sts) =
     map (\<lambda>s. if notify_immediately s then ''Phone + Slack + Email'' else ''Slack + Email'') sts"
    by (simp only: map_enumerate_value)
qed

subsection \<open>Evaluations and the clock\<close>

lemma lower_role_examples:
  "toLowerCase ''Technical Lead (Primary)'' = ''technical lead (primary)''"
  "toLowerCase ''Technical Lead (Secondary)'' = ''technical lead (secondary)''"
  "toLowerCase ''Incident Commander'' = ''incident commander''"
  "toLowerCase ''Technical Lead'' = ''technical lead''"
  "toLowerCase ''Communications Lead'' = ''communications lead''"
  by (simp_all add: toLowerCase_def lower_char_def)

lemma lower_number_example: "toLowerCase ''INC0001'' = ''inc0001''"
  by (simp add: toLowerCase_def lower_char_def)

lemma gr_section3_first_step:
  "findFirst isNumberedStep (blocks (sections (generateRunbook env inc sts vs) ! 2)) =
   Some (NumberedStep 1
     (''Create Slack channel: **'' @ replaceFirst ''inc'' ''#inc'' (toLowerCase (number inc))
      @ ''** (format: `/incident-channel '' @ number inc @ ''` or create manually)''))"
  by (simp add: gr_sections Let_def buildSection3_def)





subsection \<open>Email templates\<close>

lemma email_templates_shape:
  "map phase (buildEmailTemplates env inc sts ic cl z s) =
     [''Initial Incident Notification'', ''War Room / Bridge Established'',
      ''30-Minute Status Update'', ''Mitigation In Progress'', ''Service Restored'',
      ''Incident Closed + PIR Invitation'']"
  "map to (buildEmailTemplates env inc sts ic cl z s) =
     (let imm = map email (filter (\<lambda>s. notify_immediately s \<or> escalation_level s = 1) sts);
          l2 = map email (filter (\<lambda>s. escalation_level s = 2) sts)
      in [imm, imm, imm @ l2, imm @ l2, map email sts, imm @ l2])"
  "map cc (buildEmailTemplates env inc sts ic cl z s) =
     (let l2 = map email (filter (\<lambda>s. escalation_level s = 2) sts);
          l3 = map email (filter (\<lambda>s. escalation_level s = 3) sts)
      in [l2, l2, l3, l3, [], l3])"
  by (simp_all add: buildEmailTemplates_def Let_def)

lemma distinct_to_lists:
  assumes d: "distinct (map email sts)"
    and n: "\<forall>s \<in> set sts. \<not> (notify_immediately s \<and> escalation_level s = 2)"
  shows "distinct (map email (filter (\<lambda>s. notify_immediately s \<or> escalation_level s = 1) sts))"
    and "distinct (map email (filter (\<lambda>s. notify_immediately s \<or> escalation_level s = 1) sts)
                   @ map email (filter (\<lambda>s. escalation_level s = 2) sts))"
proof -
  let ?imm = "filter (\<lambda>s. notify_immediately s \<or> escalation_level s = 1) sts"
  let ?l2 = "filter (\<lambda>s. escalation_level s = 2) sts"
  from d have ds: "distinct sts" and inj: "inj_on email (set sts)"
    by (simp_all add: distinct_map)
  show "distinct (map email ?imm)"
    using d by (rule distinct_map_filter)
  have disj: "set ?imm \<inter> set ?l2 = {}"
    using n by auto
  have "distinct (?imm @ ?l2)"
    using ds disj by simp
  moreover have "inj_on email (set (?imm @ ?l2))"
    by (rule inj_on_subset[OF inj]) auto
  ultimately have "distinct (map email (?imm @ ?l2))"
    by (rule distinct_map[THEN iffD2, OF conjI])
  then show "distinct (map email ?imm @ map email ?l2)"
    by simp
qed

lemma lower_name_examples:
  "toLowerCase ''A'' = ''a''" "toLowerCase ''B'' = ''b''" "toLowerCase ''C'' = ''c''"
  "toLowerCase ''Dana'' = ''dana''"
  by (simp_all add: toLowerCase_def lower_char_def)

subsection \<open>Shape of the diagnosis generators\<close>




lemma generic_generator:
  "\<not> list_ex isDecisionTree (getGenericDiagnosisSteps inc)"
  "map isNumberedStep (getGenericDiagnosisSteps inc) = [True, True, True, True]"
  by (simp_all add: getGenericDiagnosisSteps_def)

lemma security_alert_text:
  "str_includes
     (''SECURITY INCIDENT HANDLING: If you confirm a breach or data exfiltration '' @ emdash
      @ '' STOP. Escalate immediately to the CISO and Legal team BEFORE taking any ''
      @ ''containment action. Containment may need to be coordinated with law enforcement.'')
     ''Escalate immediately to the CISO and Legal team BEFORE taking any containment action''"
  by (simp add: emdash_def)




subsection \<open>Section 6 and the vendor sub-table\<close>

lemma gr_section6_blocks:
  "blocks (sections (generateRunbook env inc sts vs) ! 5) = blocks (buildSection6 sts vs)"
  by (simp add: gr_sections Let_def)

lemma section6_no_vendors:
  "length (blocks (buildSection6 sts [])) = 4"
  "map isTable (blocks (buildSection6 sts [])) = [False, True, False, True]"
  "Heading 2 ''Vendor / Third-Party Escalation'' \<notin> set (blocks (buildSection6 sts []))"
  by (simp_all add: buildSection6_def)

lemma section6_with_vendors:
  "vs \<noteq> [] \<Longrightarrow> map isTable (blocks (buildSection6 sts vs)) = [False, True, False, True, False, True]"
  by (simp add: buildSection6_def)

section \<open>Claims\<close>

text \<open>
  Claim C1. For any incident with number "INC0001", category "Database", affected_ci
  "db-01" and severity "1 - Critical", the stakeholders Alice (role "Incident
  Commander", escalation_level 1, notify_immediately) and Bob (role "Technical Lead",
  escalation_level 1, notify_immediately) and no vendors, whatever the other fields
  are, the output has Alice as Incident Commander, Bob as Technical Lead, no
  Communications Lead, slackChannel "#incinc0001" and six email templates; Section 6
  has its four blocks (paragraph, table, heading, table) without the vendor heading
  and vendor table; Section 4 holds the seven blocks of the Database diagnosis
  sequence after its two introductory blocks.
\<close>

theorem end_to_end_scenario:
  "(let inc' = inc\<lparr>number := ''INC0001'', category := ''Database'', affected_ci := ''db-01'',
                    severity := ''1 - Critical''\<rparr>;
        alice = a\<lparr>name := ''Alice'', role := ''Incident Commander'', escalation_level := 1,
                   notify_immediately := True\<rparr>;
        bob = b\<lparr>name := ''Bob'', role := ''Technical Lead'', escalation_level := 1,
                 notify_immediately := True\<rparr>;
        out = generateRunbook env inc' [alice, bob] []
    in incidentCommander out = Some alice
       \<and> map_option name (incidentCommander out) = Some ''Alice''
       \<and> technicalLead out = Some bob
       \<and> map_option name (technicalLead out) = Some ''Bob''
       \<and> commsLead out = None
       \<and> slackChannel out = ''#incinc0001''
       \<and> length (emailTemplates out) = 6
       \<and> length (blocks (sections out ! 5)) = 4
       \<and> map isTable (blocks (sections out ! 5)) = [False, True, False, True]
       \<and> Heading 2 ''Vendor / Third-Party Escalation'' \<notin> set (blocks (sections out ! 5))
       \<and> take 7 (drop 2 (blocks (sections out ! 3))) = getDatabaseDiagnosisSteps inc'
       \<and> length (getDatabaseDiagnosisSteps inc') = 7
       \<and> length (blocks (sections out ! 3)) = 12)"
proof -
  define inc' where "inc' = inc\<lparr>number := ''INC0001'', category := ''Database'', affected_ci := ''db-01'',
                    severity := ''1 - Critical''\<rparr>"
  define alice where "alice = a\<lparr>name := ''Alice'', role := ''Incident Commander'', escalation_level := 1,
                   notify_immediately := True\<rparr>"
  define bob where "bob = b\<lparr>name := ''Bob'', role := ''Technical Lead'', escalation_level := 1,
                 notify_immediately := True\<rparr>"
  define out where "out = generateRunbook env inc' [alice, bob] []"
  have ra: "role alice = ''Incident Commander''" "name alice = ''Alice''"
    and rb: "role bob = ''Technical Lead''" "name bob = ''Bob''"
    by (simp_all add: alice_def bob_def)
  have num: "number inc' = ''INC0001''" and cat: "category inc' = ''Database''"
    by (simp_all add: inc'_def)
  have ic: "incidentCommander out = Some alice"
    by (simp add: out_def gr_roles findByRole_def ra rb lower_role_examples)
  have tl: "technicalLead out = Some bob"
    by (simp add: out_def gr_roles findByRole_def ra rb lower_role_examples)
  have cl: "commsLead out = None"
    by (simp add: out_def gr_roles findByRole_def ra rb lower_role_examples)
  have sc: "slackChannel out = ''#incinc0001''"
    by (simp add: out_def gr_slackChannel num lower_number_example stripNonAlnum_def
        is_lower_alnum_def)
  have et: "length (emailTemplates out) = 6"
    by (simp add: out_def gr_emailTemplates buildEmailTemplates_def Let_def)
  have s6: "length (blocks (sections out ! 5)) = 4"
    "map isTable (blocks (sections out ! 5)) = [False, True, False, True]"
    "Heading 2 ''Vendor / Third-Party Escalation'' \<notin> set (blocks (sections out ! 5))"
    by (simp_all only: out_def gr_section6_blocks section6_no_vendors not_False_eq_True)
  have r: "spec_categoryRoute (category inc') = DatabaseRoute"
    by (simp add: cat route_examples)
  have len: "length (getDatabaseDiagnosisSteps inc') = 7"
    by (simp add: getDatabaseDiagnosisSteps_def)
  have s4: "take 7 (drop 2 (blocks (sections out ! 3))) = getDatabaseDiagnosisSteps inc'"
    using len by (simp add: out_def gr_section4_blocks r)
  have "length (blocks (sections out ! 3)) =
        length (take 2 (blocks (sections out ! 3))) + length (drop 2 (blocks (sections out ! 3)))"
    by simp
  then have l4: "length (blocks (sections out ! 3)) = 12"
    by (simp only: out_def gr_section4_intro gr_section4_blocks r spec_diagnosisSteps.simps
        length_append len) simp
  from ic tl cl sc et s6 s4 len l4 ra rb show ?thesis
    unfolding Let_def out_def alice_def bob_def inc'_def by simp
qed

text \<open>Witness for C1: the scenario on the sample incident and environment.\<close>

theorem end_to_end_scenario_witness:
  "incidentCommander (generateRunbook sampleEnv sampleIncident
      [sampleStakeholder ''Alice'' ''Incident Commander'' 1 True,
       sampleStakeholder ''Bob'' ''Technical Lead'' 1 True] [])
     = Some (sampleStakeholder ''Alice'' ''Incident Commander'' 1 True)
   \<and> technicalLead (generateRunbook sampleEnv sampleIncident
      [sampleStakeholder ''Alice'' ''Incident Commander'' 1 True,
       sampleStakeholder ''Bob'' ''Technical Lead'' 1 True] [])
     = Some (sampleStakeholder ''Bob'' ''Technical Lead'' 1 True)
   \<and> commsLead (generateRunbook sampleEnv sampleIncident
      [sampleStakeholder ''Alice'' ''Incident Commander'' 1 True,
       sampleStakeholder ''Bob'' ''Technical Lead'' 1 True] []) = None
   \<and> slackChannel (generateRunbook sampleEnv sampleIncident
      [sampleStakeholder ''Alice'' ''Incident Commander'' 1 True,
       sampleStakeholder ''Bob'' ''Technical Lead'' 1 True] []) = ''#incinc0001''
   \<and> length (emailTemplates (generateRunbook sampleEnv sampleIncident
      [sampleStakeholder ''Alice'' ''Incident Commander'' 1 True,
       sampleStakeholder ''Bob'' ''Technical Lead'' 1 True] [])) = 6"
proof -
  have i: "sampleIncident\<lparr>number := ''INC0001'', category := ''Database'',
             affected_ci := ''db-01'', severity := ''1 - Critical''\<rparr> = sampleIncident"
    by (simp add: sampleIncident_def)
  have a: "(sampleStakeholder ''Alice'' ''Incident Commander'' 1 True)
             \<lparr>name := ''Alice'', role := ''Incident Commander'', escalation_level := 1,
              notify_immediately := True\<rparr>
           = sampleStakeholder ''Alice'' ''Incident Commander'' 1 True"
    by (simp add: sampleStakeholder_def)
  have b: "(sampleStakeholder ''Bob'' ''Technical Lead'' 1 True)
             \<lparr>name := ''Bob'', role := ''Technical Lead'', escalation_level := 1,
              notify_immediately := True\<rparr>
           = sampleStakeholder ''Bob'' ''Technical Lead'' 1 True"
    by (simp add: sampleStakeholder_def)
  note t = end_to_end_scenario
    [of sampleIncident "sampleStakeholder ''Alice'' ''Incident Commander'' 1 True"
        "sampleStakeholder ''Bob'' ''Technical Lead'' 1 True" sampleEnv,
     unfolded Let_def i a b]
  from t show ?thesis by (simp only: simp_thms)
qed

text \<open>
  Claim C2, as stated, fails in its last part: the "to" lists of templates 3, 4 and 6
  are the immediate recipients followed by the level-2 recipients, so a stakeholder
  with escalation_level 2 and notify_immediately is listed twice.
\<close>

theorem duplicate_recipient_counterexample:
  "to (emailTemplates (generateRunbook sampleEnv sampleIncident
         [sampleStakeholder ''Dana'' ''VP Engineering'' 2 True] []) ! 2)
     = [''dana@example.com'', ''dana@example.com'']
   \<and> \<not> distinct (to (emailTemplates (generateRunbook sampleEnv sampleIncident
         [sampleStakeholder ''Dana'' ''VP Engineering'' 2 True] []) ! 2))"
proof -
  have "map to (emailTemplates (generateRunbook sampleEnv sampleIncident
         [sampleStakeholder ''Dana'' ''VP Engineering'' 2 True] []))
     = [[''dana@example.com''], [''dana@example.com''],
        [''dana@example.com'', ''dana@example.com''], [''dana@example.com'', ''dana@example.com''],
        [''dana@example.com''], [''dana@example.com'', ''dana@example.com'']]"
    by (simp add: gr_emailTemplates email_templates_shape Let_def sampleStakeholder_def
        lower_name_examples)
  then have "map to (emailTemplates (generateRunbook sampleEnv sampleIncident
         [sampleStakeholder ''Dana'' ''VP Engineering'' 2 True] [])) ! 2
     = [''dana@example.com'', ''dana@example.com'']"
    by simp
  moreover have "length (emailTemplates (generateRunbook sampleEnv sampleIncident
         [sampleStakeholder ''Dana'' ''VP Engineering'' 2 True] [])) = 6"
    by (simp add: gr_emailTemplates buildEmailTemplates_def Let_def)
  ultimately have "to (emailTemplates (generateRunbook sampleEnv sampleIncident
         [sampleStakeholder ''Dana'' ''VP Engineering'' 2 True] []) ! 2)
     = [''dana@example.com'', ''dana@example.com'']"
    by simp
  then show ?thesis
    by simp
qed

text \<open>
  Claim C2, amended. For every stakeholder list generateRunbook produces six email
  templates in the fixed phase order. Templates 1 and 2 are addressed to the emails of
  the stakeholders with escalation_level 1 or notify_immediately, with the level-2
  emails in cc; templates 3, 4 and 6 are addressed to those emails followed by the
  level-2 emails, with the level-3 emails in cc; template 5 is addressed to all
  stakeholders' emails with an empty cc. When the stakeholders' emails are pairwise
  distinct and no stakeholder has both notify_immediately and escalation_level 2, no
  "to" list contains an email twice.
\<close>

theorem email_recipient_rules:
  "(let ts = emailTemplates (generateRunbook env inc sts vs);
        imm = map email (filter (\<lambda>s. escalation_level s = 1 \<or> notify_immediately s) sts);
        l2 = map email (filter (\<lambda>s. escalation_level s = 2) sts);
        l3 = map email (filter (\<lambda>s. escalation_level s = 3) sts)
    in map phase ts =
         [''Initial Incident Notification'', ''War Room / Bridge Established'',
          ''30-Minute Status Update'', ''Mitigation In Progress'', ''Service Restored'',
          ''Incident Closed + PIR Invitation'']
       \<and> map to ts = [imm, imm, imm @ l2, imm @ l2, map email sts, imm @ l2]
       \<and> map cc ts = [l2, l2, l3, l3, [], l3]
       \<and> set imm = email ` {s \<in> set sts. escalation_level s = 1 \<or> notify_immediately s}
       \<and> set (imm @ l2) =
           email ` ({s \<in> set sts. escalation_level s = 1 \<or> notify_immediately s}
                    \<union> {s \<in> set sts. escalation_level s = 2})
       \<and> set (map email sts) = email ` set sts
       \<and> set l2 = email ` {s \<in> set sts. escalation_level s = 2}
       \<and> set l3 = email ` {s \<in> set sts. escalation_level s = 3}
       \<and> (distinct (map email sts)
            \<and> (\<forall>s \<in> set sts. \<not> (notify_immediately s \<and> escalation_level s = 2))
            \<longrightarrow> list_all (\<lambda>t. distinct (to t)) ts))"
proof -
  let ?ts = "emailTemplates (generateRunbook env inc sts vs)"
  let ?imm = "map email (filter (\<lambda>s. escalation_level s = 1 \<or> notify_immediately s) sts)"
  let ?l2 = "map email (filter (\<lambda>s. escalation_level s = 2) sts)"
  let ?l3 = "map email (filter (\<lambda>s. escalation_level s = 3) sts)"
  have comm: "(\<lambda>s. notify_immediately s \<or> escalation_level s = 1)
            = (\<lambda>s. escalation_level s = 1 \<or> notify_immediately s)"
    by auto
  have ph: "map phase ?ts =
         [''Initial Incident Notification'', ''War Room / Bridge Established'',
          ''30-Minute Status Update'', ''Mitigation In Progress'', ''Service Restored'',
          ''Incident Closed + PIR Invitation'']"
    by (simp only: gr_emailTemplates email_templates_shape)
  have tos: "map to ?ts = [?imm, ?imm, ?imm @ ?l2, ?imm @ ?l2, map email sts, ?imm @ ?l2]"
    by (simp only: gr_emailTemplates email_templates_shape Let_def comm)
  have ccs: "map cc ?ts = [?l2, ?l2, ?l3, ?l3, [], ?l3]"
    by (simp only: gr_emailTemplates email_templates_shape Let_def)
  have sets: "set ?imm = email ` {s \<in> set sts. escalation_level s = 1 \<or> notify_immediately s}"
    "set (?imm @ ?l2) =
           email ` ({s \<in> set sts. escalation_level s = 1 \<or> notify_immediately s}
                    \<union> {s \<in> set sts. escalation_level s = 2})"
    "set (map email sts) = email ` set sts"
    "set ?l2 = email ` {s \<in> set sts. escalation_level s = 2}"
    "set ?l3 = email ` {s \<in> set sts. escalation_level s = 3}"
    by (simp_all add: image_Un)
  have dist: "list_all (\<lambda>t. distinct (to t)) ?ts"
    if d: "distinct (map email sts)"
      and n: "\<forall>s \<in> set sts. \<not> (notify_immediately s \<and> escalation_level s = 2)"
  proof -
    have d1: "distinct ?imm" and d2: "distinct (?imm @ ?l2)"
      using distinct_to_lists[OF d n] by (simp_all only: comm)
    have "list_all distinct (map to ?ts)"
      by (simp only: tos) (simp add: d d1 d2 del: distinct_append)
    then show ?thesis
      by (simp add: list_all_iff)
  qed
  from ph tos ccs sets dist show ?thesis
    by (simp only: Let_def) blast
qed

text \<open>
  Witness for C2: stakeholders A (level 1, notify_immediately), B (level 2) and
  C (level 3) give template 1 to = [A], cc = [B]; template 3 to = [A, B], cc = [C];
  template 5 to = [A, B, C], cc = [].
\<close>

theorem email_recipient_rules_witness:
  "distinct (map email
     [sampleStakeholder ''A'' ''Incident Commander'' 1 True,
      sampleStakeholder ''B'' ''VP Engineering'' 2 False,
      sampleStakeholder ''C'' ''Executive Sponsor'' 3 False])
   \<and> list_all (\<lambda>s. \<not> (notify_immediately s \<and> escalation_level s = 2))
     [sampleStakeholder ''A'' ''Incident Commander'' 1 True,
      sampleStakeholder ''B'' ''VP Engineering'' 2 False,
      sampleStakeholder ''C'' ''Executive Sponsor'' 3 False]
   \<and> map to (emailTemplates (generateRunbook sampleEnv sampleIncident
       [sampleStakeholder ''A'' ''Incident Commander'' 1 True,
        sampleStakeholder ''B'' ''VP Engineering'' 2 False,
        sampleStakeholder ''C'' ''Executive Sponsor'' 3 False] []))
     = [[''a@example.com''], [''a@example.com''],
        [''a@example.com'', ''b@example.com''], [''a@example.com'', ''b@example.com''],
        [''a@example.com'', ''b@example.com'', ''c@example.com''],
        [''a@example.com'', ''b@example.com'']]
   \<and> map cc (emailTemplates (generateRunbook sampleEnv sampleIncident
       [sampleStakeholder ''A'' ''Incident Commander'' 1 True,
        sampleStakeholder ''B'' ''VP Engineering'' 2 False,
        sampleStakeholder ''C'' ''Executive Sponsor'' 3 False] []))
     = [[''b@example.com''], [''b@example.com''], [''c@example.com''], [''c@example.com''],
        [], [''c@example.com'']]
   \<and> list_all (\<lambda>t. distinct (to t)) (emailTemplates (generateRunbook sampleEnv sampleIncident
       [sampleStakeholder ''A'' ''Incident Commander'' 1 True,
        sampleStakeholder ''B'' ''VP Engineering'' 2 False,
        sampleStakeholder ''C'' ''Executive Sponsor'' 3 False] []))"
proof -
  let ?sts = "[sampleStakeholder ''A'' ''Incident Commander'' 1 True,
               sampleStakeholder ''B'' ''VP Engineering'' 2 False,
               sampleStakeholder ''C'' ''Executive Sponsor'' 3 False]"
  let ?ts = "emailTemplates (generateRunbook sampleEnv sampleIncident ?sts [])"
  note t = email_recipient_rules[of sampleEnv sampleIncident ?sts "[]", unfolded Let_def]
  have ev:
    "map email (filter (\<lambda>s. escalation_level s = 1 \<or> notify_immediately s) ?sts)
       = [''a@example.com'']"
    "map email (filter (\<lambda>s. escalation_level s = 2) ?sts) = [''b@example.com'']"
    "map email (filter (\<lambda>s. escalation_level s = 3) ?sts) = [''c@example.com'']"
    "map email ?sts = [''a@example.com'', ''b@example.com'', ''c@example.com'']"
    by (simp_all add: sampleStakeholder_def lower_name_examples)
  have h1: "distinct (map email ?sts)"
    by (simp only: ev) simp
  have h2: "\<forall>s \<in> set ?sts. \<not> (notify_immediately s \<and> escalation_level s = 2)"
    by (simp add: sampleStakeholder_def)
  have h2': "list_all (\<lambda>s. \<not> (notify_immediately s \<and> escalation_level s = 2)) ?sts"
    by (simp add: sampleStakeholder_def)
  have tos: "map to ?ts =
     [[''a@example.com''], [''a@example.com''],
      [''a@example.com'', ''b@example.com''], [''a@example.com'', ''b@example.com''],
      [''a@example.com'', ''b@example.com'', ''c@example.com''],
      [''a@example.com'', ''b@example.com'']]"
    using t[THEN conjunct2, THEN conjunct1] by (simp only: ev) simp
  have ccs: "map cc ?ts =
     [[''b@example.com''], [''b@example.com''], [''c@example.com''], [''c@example.com''],
      [], [''c@example.com'']]"
    using t[THEN conjunct2, THEN conjunct2, THEN conjunct1] by (simp only: ev)
  have dist: "list_all (\<lambda>t. distinct (to t)) ?ts"
    by (rule t[THEN conjunct2, THEN conjunct2, THEN conjunct2, THEN conjunct2,
          THEN conjunct2, THEN conjunct2, THEN conjunct2, THEN conjunct2, THEN mp,
          OF conjI[OF h1 h2]])
  from h1 h2' tos ccs dist show ?thesis
    by (simp only: simp_thms)
qed


text \<open>
  Claim C4. For every stakeholder list and every role keyword, role resolution returns
  null exactly when no stakeholder's lower-cased role contains the lower-cased keyword,
  and otherwise the stakeholder at the first list position whose lower-cased role
  contains it. The Incident Commander, Technical Lead and Communications Lead of the
  output are resolved this way.
\<close>

theorem role_resolution_first_match:
  "(findByRole sts kw = None
      \<longleftrightarrow> (\<forall>s \<in> set sts. \<not> sublist (toLowerCase kw) (toLowerCase (role s))))
   \<and> (\<forall>s. findByRole sts kw = Some s \<longrightarrow>
         (\<exists>i < length sts. sts ! i = s
            \<and> sublist (toLowerCase kw) (toLowerCase (role s))
            \<and> (\<forall>j < i. \<not> sublist (toLowerCase kw) (toLowerCase (role (sts ! j))))))
   \<and> incidentCommander (generateRunbook env inc sts vs) = findByRole sts ''Incident Commander''
   \<and> technicalLead (generateRunbook env inc sts vs) = findByRole sts ''Technical Lead''
   \<and> commsLead (generateRunbook env inc sts vs) = findByRole sts ''Communications Lead''"
proof -
  let ?p = "\<lambda>s. str_includes (toLowerCase (role s)) (toLowerCase kw)"
  have none: "findByRole sts kw = None
      \<longleftrightarrow> (\<forall>s \<in> set sts. \<not> sublist (toLowerCase kw) (toLowerCase (role s)))"
    by (simp add: findByRole_def findFirst_None str_includes_sublist)
  have some: "\<exists>i < length sts. sts ! i = s
            \<and> sublist (toLowerCase kw) (toLowerCase (role s))
            \<and> (\<forall>j < i. \<not> sublist (toLowerCase kw) (toLowerCase (role (sts ! j))))"
    if "findByRole sts kw = Some s" for s
    using findFirst_Some[of ?p sts s] that
    by (simp add: findByRole_def str_includes_sublist)
  from none some show ?thesis
    by (simp add: gr_roles)
qed

text \<open>
  Witness for C4: of two stakeholders with roles "Technical Lead (Primary)" and
  "Technical Lead (Secondary)", in that order, the first is the resolved Technical
  Lead, although the second matches too; no Communications Lead is resolved.
\<close>

theorem role_resolution_first_match_witness:
  "findByRole
     [sampleStakeholder ''Priya'' ''Technical Lead (Primary)'' 1 True,
      sampleStakeholder ''Sam'' ''Technical Lead (Secondary)'' 1 True] ''Technical Lead''
     = Some (sampleStakeholder ''Priya'' ''Technical Lead (Primary)'' 1 True)
   \<and> technicalLead (generateRunbook sampleEnv sampleIncident
        [sampleStakeholder ''Priya'' ''Technical Lead (Primary)'' 1 True,
         sampleStakeholder ''Sam'' ''Technical Lead (Secondary)'' 1 True] [])
     = Some (sampleStakeholder ''Priya'' ''Technical Lead (Primary)'' 1 True)
   \<and> commsLead (generateRunbook sampleEnv sampleIncident
        [sampleStakeholder ''Priya'' ''Technical Lead (Primary)'' 1 True,
         sampleStakeholder ''Sam'' ''Technical Lead (Secondary)'' 1 True] [])
     = None
   \<and> sublist (toLowerCase ''Technical Lead'') (toLowerCase ''Technical Lead (Secondary)'')"
proof -
  let ?p = "sampleStakeholder ''Priya'' ''Technical Lead (Primary)'' 1 True"
  let ?s = "sampleStakeholder ''Sam'' ''Technical Lead (Secondary)'' 1 True"
  note t = role_resolution_first_match
    [of "[?p, ?s]" "''Technical Lead''" sampleEnv sampleIncident "[]"]
  have a: "findByRole [?p, ?s] ''Technical Lead'' = Some ?p"
    by (simp add: findByRole_def sampleStakeholder_def lower_role_examples)
  from t have b: "technicalLead (generateRunbook sampleEnv sampleIncident [?p, ?s] [])
      = findByRole [?p, ?s] ''Technical Lead''"
    by blast
  from t have c: "commsLead (generateRunbook sampleEnv sampleIncident [?p, ?s] [])
      = findByRole [?p, ?s] ''Communications Lead''"
    by blast
  have d: "findByRole [?p, ?s] ''Communications Lead'' = None"
    by (simp add: findByRole_def sampleStakeholder_def lower_role_examples)
  have e: "sublist (toLowerCase ''Technical Lead'') (toLowerCase ''Technical Lead (Secondary)'')"
    by (simp add: lower_role_examples flip: str_includes_sublist)
  from a b c d e show ?thesis
    by (simp only: simp_thms)
qed

text \<open>
  Claim C5. For every input the ids of the action ledger are ACT-001, ACT-002, ... in
  order, up to the length of the ledger, without gaps or repeats. The ledger always
  has 23 entries, so the ids are exactly ACT-001 to ACT-023.
\<close>

theorem action_ids_sequential:
  "map ai_id (actionItems (generateRunbook env inc sts vs))
     = map actionId [1..<Suc (length (actionItems (generateRunbook env inc sts vs)))]
   \<and> length (actionItems (generateRunbook env inc sts vs)) = 23
   \<and> map ai_id (actionItems (generateRunbook env inc sts vs))
     = [''ACT-001'', ''ACT-002'', ''ACT-003'', ''ACT-004'', ''ACT-005'', ''ACT-006'',
        ''ACT-007'', ''ACT-008'', ''ACT-009'', ''ACT-010'', ''ACT-011'', ''ACT-012'',
        ''ACT-013'', ''ACT-014'', ''ACT-015'', ''ACT-016'', ''ACT-017'', ''ACT-018'',
        ''ACT-019'', ''ACT-020'', ''ACT-021'', ''ACT-022'', ''ACT-023'']
   \<and> distinct (map ai_id (actionItems (generateRunbook env inc sts vs)))"
proof -
  let ?ids = "map ai_id (actionItems (generateRunbook env inc sts vs))"
  have ids: "?ids = map actionId [1..<24]"
    by (rule gr_action_ids)
  have "length ?ids = length (map actionId [1..<24])"
    by (simp only: ids)
  then have len: "length (actionItems (generateRunbook env inc sts vs)) = 23"
    by simp
  have lits: "?ids =
     [''ACT-001'', ''ACT-002'', ''ACT-003'', ''ACT-004'', ''ACT-005'', ''ACT-006'',
      ''ACT-007'', ''ACT-008'', ''ACT-009'', ''ACT-010'', ''ACT-011'', ''ACT-012'',
      ''ACT-013'', ''ACT-014'', ''ACT-015'', ''ACT-016'', ''ACT-017'', ''ACT-018'',
      ''ACT-019'', ''ACT-020'', ''ACT-021'', ''ACT-022'', ''ACT-023'']"
    by (simp only: ids actionId_values)
  have dist: "distinct ?ids"
    by (simp only: lits) simp
  have "?ids = map actionId [1..<Suc (length (actionItems (generateRunbook env inc sts vs)))]"
    by (simp only: len ids) simp
  with len lits dist show ?thesis by blast
qed

text \<open>
  Claim C6. For every stakeholder list the escalation ledger has one entry per
  stakeholder, in list order (name, role and notification method of the stakeholder
  at the same position), with ids ESC-001, ESC-002, ... up to the number of
  stakeholders; the number is padded with zeros to three digits.
\<close>

theorem escalation_ledger_complete:
  "length (escalationEntries (generateRunbook env inc sts vs)) = length sts
   \<and> map esc_id (escalationEntries (generateRunbook env inc sts vs))
     = map escalationId [1..<Suc (length sts)]
   \<and> map contactName (escalationEntries (generateRunbook env inc sts vs)) = map name sts
   \<and> map esc_role (escalationEntries (generateRunbook env inc sts vs)) = map role sts
   \<and> map esc_method (escalationEntries (generateRunbook env inc sts vs))
     = map (\<lambda>s. if notify_immediately s then ''Phone + Slack + Email'' else ''Slack + Email'') sts
   \<and> map escalationId [1, 2, 3, 10, 999] 
     = [''ESC-001'', ''ESC-002'', ''ESC-003'', ''ESC-010'', ''ESC-999'']"
proof -
  have "length (buildEscalationEntries sts) = length sts"
    by (simp add: buildEscalationEntries_def)
  moreover have "map escalationId [1, 2, 3, 10, 999]
     = [''ESC-001'', ''ESC-002'', ''ESC-003'', ''ESC-010'', ''ESC-999'']"
    by (simp add: escalationId_def padStart_def string_of_nat.simps digit_char_def replicate_two)
  ultimately show ?thesis
    by (simp add: gr_escalationEntries escalation_fields)
qed









text \<open>
  Claim C10. The output field slackChannel is "#inc" followed by the lower-cased incident
  number without its non-alphanumeric characters, whereas the first numbered step of
  Section 3 shows the lower-cased number with its first "inc" replaced by "#inc". There
  is an incident on which the two differ: for number "INC0001" the field is
  "#incinc0001" and the step shows "#inc0001" (the field's value does not occur in the
  step's text).
\<close>

theorem slack_channel_divergence:
  "slackChannel (generateRunbook env inc sts vs)
     = ''#inc'' @ stripNonAlnum (toLowerCase (number inc))
   \<and> findFirst isNumberedStep (blocks (sections (generateRunbook env inc sts vs) ! 2))
     = Some (NumberedStep 1
         (''Create Slack channel: **'' @ replaceFirst ''inc'' ''#inc'' (toLowerCase (number inc))
          @ ''** (format: `/incident-channel '' @ number inc @ ''` or create manually)''))
   \<and> slackChannel (generateRunbook sampleEnv sampleIncident [] []) = ''#incinc0001''
   \<and> findFirst isNumberedStep (blocks (sections (generateRunbook sampleEnv sampleIncident [] []) ! 2))
     = Some (NumberedStep 1
         ''Create Slack channel: **#inc0001** (format: `/incident-channel INC0001` or create manually)'')
   \<and> \<not> str_includes
         ''Create Slack channel: **#inc0001** (format: `/incident-channel INC0001` or create manually)''
         ''#incinc0001''"
proof -
  have n: "number sampleIncident = ''INC0001''"
    by (simp add: sampleIncident_def)
  have a: "slackChannel (generateRunbook sampleEnv sampleIncident [] []) = ''#incinc0001''"
    by (simp add: gr_slackChannel n lower_number_example stripNonAlnum_def is_lower_alnum_def)
  have b: "findFirst isNumberedStep (blocks (sections (generateRunbook sampleEnv sampleIncident [] []) ! 2))
     = Some (NumberedStep 1
         ''Create Slack channel: **#inc0001** (format: `/incident-channel INC0001` or create manually)'')"
    by (simp add: gr_section3_first_step n lower_number_example)
  have c: "\<not> str_includes
         ''Create Slack channel: **#inc0001** (format: `/incident-channel INC0001` or create manually)''
         ''#incinc0001''"
    by simp
  from a b c show ?thesis
    by (simp only: gr_slackChannel gr_section3_first_step) simp
qed

end
